theory Spec2Isabelle
  imports Complex_Main "HOL-Library.AList"
begin

section \<open>EasyBake: UDIM tiles and atlas layout\<close>

text \<open>
  The add-on is Python; its integers are unbounded (\<open>int\<close>), \<open>%\<close> and \<open>//\<close> are floor
  modulus and floor division (as \<open>mod\<close> and \<open>div\<close> on \<open>int\<close>), and its floats are
  modelled as \<open>real\<close> (rounding is not modelled).
\<close>

datatype py_error =
    ZeroDivisionError | KeyError | IndexError | ValueError | TypeError | AttributeError
  | ReferenceError | RuntimeError

subsection \<open>UDIM helper functions\<close>

record udim_bounds =
  u_min :: real
  v_min :: real
  u_max :: real
  v_max :: real
  tile_u :: int
  tile_v :: int

text \<open>\<open>get_udim_tile_bounds(udim_number)\<close>.\<close>

definition get_udim_tile_bounds :: "int \<Rightarrow> udim_bounds" where
  "get_udim_tile_bounds udim_number =
     (let tile_index = udim_number - 1001;
          tu = tile_index mod 10;
          tv = tile_index div 10
      in \<lparr>u_min = of_int tu, v_min = of_int tv,
          u_max = of_int (tu + 1), v_max = of_int (tv + 1),
          tile_u = tu, tile_v = tv\<rparr>)"

text \<open>Python's \<open>int(x)\<close> on a float truncates towards zero.\<close>

definition py_int :: "real \<Rightarrow> int" where
  "py_int x = (if 0 \<le> x then \<lfloor>x\<rfloor> else \<lceil>x\<rceil>)"

text \<open>
  \<open>detect_udim_tiles(obj)\<close>: the tile number of one UV coordinate is
  \<open>1001 + tile_u + (tile_v * 10)\<close>; numbers outside 1001..1100 are dropped and the
  result is the sorted list of the set of numbers found. The argument is the list of the
  UV coordinates of all polygon loops (\<open>None\<close> when the mesh has no active UV layer).
\<close>

definition udim_number_of :: "int \<Rightarrow> int \<Rightarrow> int" where
  "udim_number_of tu tv = 1001 + tu + (tv * 10)"

definition detect_udim_tiles :: "(real \<times> real) list option \<Rightarrow> int list" where
  "detect_udim_tiles uv_layer =
     (case uv_layer of
        None \<Rightarrow> []
      | Some uvs \<Rightarrow>
          sort (remdups
            (filter (\<lambda>n. 1001 \<le> n \<and> n \<le> 1100)
               (map (\<lambda>(x, y). udim_number_of (py_int x) (py_int y)) uvs))))"

definition udim_tile_coords :: "int \<Rightarrow> int \<times> int" where
  "udim_tile_coords n = (tile_u (get_udim_tile_bounds n), tile_v (get_udim_tile_bounds n))"

subsection \<open>Atlas layout\<close>

text \<open>
  \<open>math.ceil(math.sqrt(n))\<close> for a non-negative integer, computed by searching upwards
  for the first \<open>k\<close> with \<open>n \<le> k * k\<close>; \<open>ceil_sqrt_ceiling\<close> below shows that this is
  the ceiling of the real square root.
\<close>

function ceil_sqrt_from :: "nat \<Rightarrow> nat \<Rightarrow> nat" where
  "ceil_sqrt_from n k = (if n \<le> k * k then k else ceil_sqrt_from n (Suc k))"
  by pat_completeness auto
termination
  by (relation "measure (\<lambda>(n, k). n - k * k)") auto

declare ceil_sqrt_from.simps [simp del]

definition ceil_sqrt :: "int \<Rightarrow> int" where
  "ceil_sqrt n = int (ceil_sqrt_from (nat n) 0)"

text \<open>\<open>calculate_atlas_layout(material_count)\<close>, returning \<open>(cols, rows)\<close>.\<close>

definition calculate_atlas_layout :: "int \<Rightarrow> int \<times> int" where
  "calculate_atlas_layout material_count =
     (if material_count \<le> 1 then (1, 1)
      else if material_count \<le> 2 then (2, 1)
      else if material_count \<le> 4 then (2, 2)
      else if material_count \<le> 6 then (3, 2)
      else if material_count \<le> 9 then (3, 3)
      else if material_count \<le> 12 then (4, 3)
      else if material_count \<le> 16 then (4, 4)
      else (ceil_sqrt material_count, ceil_sqrt material_count))"

text \<open>
  \<open>get_atlas_uv_bounds(material_index, cols, rows, padding)\<close>, returning
  \<open>(u_min, v_min, u_max, v_max)\<close>. \<open>material_index % cols\<close> and \<open>1.0 / rows\<close> raise
  \<open>ZeroDivisionError\<close> on a zero divisor.
\<close>

type_synonym rect = "real \<times> real \<times> real \<times> real"

definition get_atlas_uv_bounds :: "int \<Rightarrow> int \<Rightarrow> int \<Rightarrow> real \<Rightarrow> py_error + rect" where
  "get_atlas_uv_bounds material_index cols rows padding =
     (if cols = 0 \<or> rows = 0 then Inl ZeroDivisionError
      else
        let col = material_index mod cols;
            row = material_index div cols;
            u_size = 1 / of_int cols;
            v_size = 1 / of_int rows;
            umin = of_int col * u_size;
            vmin = of_int row * v_size;
            umax = umin + u_size;
            vmax = vmin + v_size;
            padding_u = padding / of_int cols;
            padding_v = padding / of_int rows
        in Inr (umin + padding_u, vmin + padding_v, umax - padding_u, vmax - padding_v))"

text \<open>
  The two properties asked of atlas cells: a cell lies in the unit square and is not
  degenerate, and two cells overlap when their interiors meet (cells that only share an
  edge, as neighbours do at padding 0, do not overlap).
\<close>

definition rect_in_unit_square :: "rect \<Rightarrow> bool" where
  "rect_in_unit_square r =
     (case r of (a, b, c, d) \<Rightarrow> 0 \<le> a \<and> a < c \<and> c \<le> 1 \<and> 0 \<le> b \<and> b < d \<and> d \<le> 1)"

definition rect_overlap :: "rect \<Rightarrow> rect \<Rightarrow> bool" where
  "rect_overlap r s =
     (case r of (a, b, c, d) \<Rightarrow> case s of (a', b', c', d') \<Rightarrow>
        a < c' \<and> a' < c \<and> b < d' \<and> b' < d)"


section \<open>Shader node trees\<close>

text \<open>
  The add-on works on the host's node trees through its Python interface. The part of
  that interface the add-on uses is modelled here: a tree is a list of nodes and a list
  of links, both in creation order. A node has an identity (\<open>node_id\<close>, never reused:
  \<open>next_id\<close> counts the identities handed out), a type name \<open>bl_idname\<close>, a name, a
  label, an image flag (\<open>node.image\<close> is set) and two socket lists. A socket is
  identified by its node and its position in the node's socket list; several sockets of
  a node may carry the same name (both shader inputs of a Mix Shader are called
  \<open>Shader\<close>), and \<open>inputs[name]\<close> is the first socket with that name.
\<close>

datatype socket_value =
    NoValue
  | FloatVal real
  | VectorVal real real real
  | ColorVal real real real real

record socket =
  sock_name :: string
  default_value :: socket_value

record node =
  node_id :: nat
  bl_idname :: string
  node_name :: string
  label :: string
  has_image :: bool
  inputs :: "socket list"
  outputs :: "socket list"

record link =
  from_node :: nat
  from_socket :: nat
  to_node :: nat
  to_socket :: nat

record node_tree =
  nodes :: "node list"
  links :: "link list"
  next_id :: nat

text \<open>\<open>next((n for n in nt.nodes if n.bl_idname == idname), None)\<close>.\<close>

definition find_node :: "node_tree \<Rightarrow> string \<Rightarrow> node option" where
  "find_node nt idname = find (\<lambda>n. bl_idname n = idname) (nodes nt)"

text \<open>
  Following a reference to a node (\<open>link.from_node\<close>, a node kept in a variable): the
  node with that identity, if it is still in the tree. The host raises
  \<open>ReferenceError\<close> on a reference to a removed node.
\<close>

definition get_node :: "node_tree \<Rightarrow> nat \<Rightarrow> node option" where
  "get_node nt i = find (\<lambda>n. node_id n = i) (nodes nt)"

text \<open>\<open>name in sockets\<close> and \<open>sockets[name]\<close>: the position of the first socket so named.\<close>

fun socket_index_from :: "nat \<Rightarrow> socket list \<Rightarrow> string \<Rightarrow> nat option" where
  "socket_index_from k [] nm = None"
| "socket_index_from k (s # ss) nm =
     (if sock_name s = nm then Some k else socket_index_from (Suc k) ss nm)"

definition socket_index :: "socket list \<Rightarrow> string \<Rightarrow> nat option" where
  "socket_index ss nm = socket_index_from 0 ss nm"

text \<open>
  \<open>socket.links\<close>: the links of the tree from or to that socket, in the order of the
  tree's link list; \<open>socket.is_linked\<close> holds when there is one.
\<close>

definition input_links :: "node_tree \<Rightarrow> nat \<Rightarrow> nat \<Rightarrow> link list" where
  "input_links nt n i = filter (\<lambda>l. to_node l = n \<and> to_socket l = i) (links nt)"

definition output_links :: "node_tree \<Rightarrow> nat \<Rightarrow> nat \<Rightarrow> link list" where
  "output_links nt n i = filter (\<lambda>l. from_node l = n \<and> from_socket l = i) (links nt)"

text \<open>\<open>nt.links.remove(link)\<close>.\<close>

definition links_remove :: "node_tree \<Rightarrow> link \<Rightarrow> node_tree" where
  "links_remove nt l = nt\<lparr>links := remove1 l (links nt)\<rparr>"

text \<open>
  \<open>nt.links.new(from_socket, to_socket)\<close>: an input socket takes one link, so the host
  first removes the links that arrive at the input socket and then appends the new link.
  At every call of the add-on the first argument is an output socket and the second an
  input socket of the same tree, for which the host does not raise.
\<close>

definition links_new :: "node_tree \<Rightarrow> nat \<times> nat \<Rightarrow> nat \<times> nat \<Rightarrow> node_tree" where
  "links_new nt frm to =
     nt\<lparr>links :=
          filter (\<lambda>l. \<not> (to_node l = fst to \<and> to_socket l = snd to)) (links nt)
          @ [\<lparr>from_node = fst frm, from_socket = snd frm,
               to_node = fst to, to_socket = snd to\<rparr>]\<rparr>"

text \<open>
  \<open>nt.nodes.new(idname)\<close> for the node types the add-on creates, with the sockets the
  host gives them (of the principled node's many inputs only the three basic ones are
  listed; they depend on the host version). The new node is appended and gets a fresh
  identity.
\<close>

definition new_node_sockets :: "string \<Rightarrow> socket list \<times> socket list" where
  "new_node_sockets idname =
     (if idname = ''ShaderNodeEmission'' then
        ([\<lparr>sock_name = ''Color'', default_value = ColorVal 1 1 1 1\<rparr>,
          \<lparr>sock_name = ''Strength'', default_value = FloatVal 1\<rparr>],
         [\<lparr>sock_name = ''Emission'', default_value = NoValue\<rparr>])
      else if idname = ''ShaderNodeRGB'' then
        ([], [\<lparr>sock_name = ''Color'', default_value = ColorVal (1/2) (1/2) (1/2) 1\<rparr>])
      else if idname = ''ShaderNodeTexImage'' then
        ([\<lparr>sock_name = ''Vector'', default_value = VectorVal 0 0 0\<rparr>],
         [\<lparr>sock_name = ''Color'', default_value = ColorVal 0 0 0 1\<rparr>,
          \<lparr>sock_name = ''Alpha'', default_value = FloatVal 1\<rparr>])
      else if idname = ''ShaderNodeOutputMaterial'' then
        ([\<lparr>sock_name = ''Surface'', default_value = NoValue\<rparr>,
          \<lparr>sock_name = ''Volume'', default_value = NoValue\<rparr>,
          \<lparr>sock_name = ''Displacement'', default_value = VectorVal 0 0 0\<rparr>], [])
      else if idname = ''ShaderNodeBsdfPrincipled'' then
        ([\<lparr>sock_name = ''Base Color'', default_value = ColorVal (8/10) (8/10) (8/10) 1\<rparr>,
          \<lparr>sock_name = ''Metallic'', default_value = FloatVal 0\<rparr>,
          \<lparr>sock_name = ''Roughness'', default_value = FloatVal (1/2)\<rparr>],
         [\<lparr>sock_name = ''BSDF'', default_value = NoValue\<rparr>])
      else ([], []))"

definition nodes_new :: "node_tree \<Rightarrow> string \<Rightarrow> node_tree \<times> nat" where
  "nodes_new nt idname =
     (let i = next_id nt;
          n = \<lparr>node_id = i, bl_idname = idname, node_name = idname, label = [],
               has_image = False,
               inputs = fst (new_node_sockets idname),
               outputs = snd (new_node_sockets idname)\<rparr>
      in (nt\<lparr>nodes := nodes nt @ [n], next_id := Suc i\<rparr>, i))"

text \<open>\<open>nt.nodes.remove(node)\<close>: the node goes, and every link from or to it with it.\<close>

definition nodes_remove :: "node_tree \<Rightarrow> nat \<Rightarrow> node_tree" where
  "nodes_remove nt i =
     nt\<lparr>nodes := filter (\<lambda>n. node_id n \<noteq> i) (nodes nt),
        links := filter (\<lambda>l. from_node l \<noteq> i \<and> to_node l \<noteq> i) (links nt)\<rparr>"

text \<open>\<open>nt.nodes.clear()\<close>.\<close>

definition nodes_clear :: "node_tree \<Rightarrow> node_tree" where
  "nodes_clear nt = nt\<lparr>nodes := [], links := []\<rparr>"

text \<open>Assignments to \<open>node.label\<close>, \<open>node.image\<close> and \<open>socket.default_value\<close>.\<close>

definition update_node :: "node_tree \<Rightarrow> nat \<Rightarrow> (node \<Rightarrow> node) \<Rightarrow> node_tree" where
  "update_node nt i f = nt\<lparr>nodes := map (\<lambda>n. if node_id n = i then f n else n) (nodes nt)\<rparr>"

definition set_label :: "node_tree \<Rightarrow> nat \<Rightarrow> string \<Rightarrow> node_tree" where
  "set_label nt i s = update_node nt i (\<lambda>n. n\<lparr>label := s\<rparr>)"

definition set_image :: "node_tree \<Rightarrow> nat \<Rightarrow> node_tree" where
  "set_image nt i = update_node nt i (\<lambda>n. n\<lparr>has_image := True\<rparr>)"

definition set_output_default :: "node_tree \<Rightarrow> nat \<Rightarrow> nat \<Rightarrow> socket_value \<Rightarrow> node_tree" where
  "set_output_default nt i k v =
     update_node nt i (\<lambda>n. n\<lparr>outputs := (outputs n)[k := (outputs n ! k)\<lparr>default_value := v\<rparr>]\<rparr>)"

definition set_input_default :: "node_tree \<Rightarrow> nat \<Rightarrow> nat \<Rightarrow> socket_value \<Rightarrow> node_tree" where
  "set_input_default nt i k v =
     update_node nt i (\<lambda>n. n\<lparr>inputs := (inputs n)[k := (inputs n ! k)\<lparr>default_value := v\<rparr>]\<rparr>)"

text \<open>
  The invariants the host keeps for every tree: identities are distinct and were handed
  out by the tree, a link joins an existing output socket to an existing input socket,
  and an input socket has at most one link.
\<close>

definition link_ok :: "node_tree \<Rightarrow> link \<Rightarrow> bool" where
  "link_ok nt l =
     (case (get_node nt (from_node l), get_node nt (to_node l)) of
        (Some a, Some b) \<Rightarrow> from_socket l < length (outputs a) \<and> to_socket l < length (inputs b)
      | _ \<Rightarrow> False)"

definition wf_tree :: "node_tree \<Rightarrow> bool" where
  "wf_tree nt =
     (distinct (map node_id (nodes nt))
      \<and> list_all (\<lambda>n. node_id n < next_id nt) (nodes nt)
      \<and> list_all (link_ok nt) (links nt)
      \<and> distinct (map (\<lambda>l. (to_node l, to_socket l)) (links nt)))"

text \<open>The link set of a tree, the object of the restore properties.\<close>

definition link_set :: "node_tree \<Rightarrow> link set" where
  "link_set nt = set (links nt)"


section \<open>Material analysis\<close>

record material =
  use_nodes :: bool
  node_tree :: "node_tree option"

record custom_shader_info =
  cs_node :: nat
  cs_type :: string
  cs_name :: string
  cs_label :: string

record mix_shader_info =
  ms_node :: nat
  ms_type :: string
  ms_name :: string

record shader_network_info =
  mix_node :: nat
  has_principled :: bool
  has_custom :: bool

text \<open>
  The dictionary returned by \<open>analyze_material\<close>. Nodes are held by identity. The keys
  \<open>pure_color_inputs\<close> and \<open>connected_inputs\<close> are added late and are absent (\<open>None\<close>)
  when the function returns early; \<open>shader_network\<close> is \<open>None\<close> for the empty dictionary.
\<close>

record analysis =
  has_image_textures :: bool
  has_pure_colors :: bool
  texture_nodes :: "nat list"
  principled_node :: "nat option"
  material_type :: string
  custom_shaders :: "custom_shader_info list"
  output_node :: "nat option"
  has_custom_shaders :: bool
  mix_shaders :: "mix_shader_info list"
  shader_network :: "shader_network_info option"
  principled_connected_to_output :: bool
  custom_connected_to_output :: bool
  pure_color_inputs :: "string list option"
  connected_inputs :: "string list option"

definition initial_analysis :: analysis where
  "initial_analysis =
     \<lparr>has_image_textures = False, has_pure_colors = False, texture_nodes = [],
      principled_node = None, material_type = ''unknown'', custom_shaders = [],
      output_node = None, has_custom_shaders = False, mix_shaders = [],
      shader_network = None, principled_connected_to_output = False,
      custom_connected_to_output = False, pure_color_inputs = None,
      connected_inputs = None\<rparr>"

text \<open>
  The list \<open>shader_types\<close> and the list of shader types tested on the sink's producer.
  Both end with \<open>'ShaderNodeNodeGroup'\<close> (\<open># Node groups can also be custom shaders\<close>).
  The host has no node of that type: the type of its group nodes is \<open>'ShaderNodeGroup'\<close>.
\<close>

definition simple_shader_types :: "string list" where
  "simple_shader_types =
     [''ShaderNodeBsdfDiffuse'', ''ShaderNodeBsdfGlossy'', ''ShaderNodeBsdfTransparent'',
      ''ShaderNodeBsdfTranslucent'', ''ShaderNodeBsdfGlass'', ''ShaderNodeBsdfRefraction'',
      ''ShaderNodeBsdfAnisotropic'', ''ShaderNodeBsdfVelvet'', ''ShaderNodeBsdfToon'',
      ''ShaderNodeSubsurfaceScattering'', ''ShaderNodeEmission'', ''ShaderNodeBsdfHair'',
      ''ShaderNodeBsdfHairPrincipled'', ''ShaderNodeBsdfSheen'']"

definition shader_types :: "string list" where
  "shader_types =
     simple_shader_types @ [''ShaderNodeMixShader'', ''ShaderNodeAddShader'', ''ShaderNodeNodeGroup'']"

definition connected_custom_types :: "string list" where
  "connected_custom_types = simple_shader_types @ [''ShaderNodeNodeGroup'']"

definition mix_types :: "string list" where
  "mix_types = [''ShaderNodeMixShader'', ''ShaderNodeAddShader'']"

text \<open>
  The loop over the inputs of the Mix or Add Shader that feeds the sink: for every linked
  input, the type of the node at the other end of its first link sets one of the two
  flags \<open>(principled_in_mix, custom_in_mix)\<close>.
\<close>

fun analyze_mix_inputs ::
  "node_tree \<Rightarrow> nat \<Rightarrow> nat list \<Rightarrow> bool \<times> bool \<Rightarrow> py_error + (bool \<times> bool)" where
  "analyze_mix_inputs nt m [] flags = Inr flags"
| "analyze_mix_inputs nt m (i # is) flags =
     (case input_links nt m i of
        [] \<Rightarrow> analyze_mix_inputs nt m is flags
      | l # _ \<Rightarrow>
          (case get_node nt (from_node l) of
             None \<Rightarrow> Inl ReferenceError
           | Some input_node \<Rightarrow>
               if bl_idname input_node = ''ShaderNodeBsdfPrincipled''
               then analyze_mix_inputs nt m is (True, snd flags)
               else if bl_idname input_node \<in> set connected_custom_types
               then analyze_mix_inputs nt m is (fst flags, True)
               else analyze_mix_inputs nt m is flags))"

text \<open>
  The block \<open>Analyze shader network connections\<close>. \<open>output_node.inputs['Surface']\<close>
  raises \<open>KeyError\<close> when the sink has no socket of that name.
\<close>

definition analyze_network :: "node_tree \<Rightarrow> node option \<Rightarrow> analysis \<Rightarrow> py_error + analysis" where
  "analyze_network nt output a =
     (case output of
        None \<Rightarrow> Inr a
      | Some out \<Rightarrow>
          (case socket_index (inputs out) ''Surface'' of
             None \<Rightarrow> Inl KeyError
           | Some si \<Rightarrow>
               (case input_links nt (node_id out) si of
                  [] \<Rightarrow> Inr a
                | l # _ \<Rightarrow>
                    (case get_node nt (from_node l) of
                       None \<Rightarrow> Inl ReferenceError
                     | Some connected_node \<Rightarrow>
                         if bl_idname connected_node = ''ShaderNodeBsdfPrincipled''
                         then Inr (a\<lparr>principled_connected_to_output := True\<rparr>)
                         else if bl_idname connected_node \<in> set connected_custom_types
                         then Inr (a\<lparr>custom_connected_to_output := True\<rparr>)
                         else if bl_idname connected_node \<in> set mix_types
                         then
                           (case analyze_mix_inputs nt (node_id connected_node)
                                   [0..<length (inputs connected_node)] (False, False) of
                              Inl e \<Rightarrow> Inl e
                            | Inr (principled_in_mix, custom_in_mix) \<Rightarrow>
                                Inr (a\<lparr>principled_connected_to_output := principled_in_mix,
                                        custom_connected_to_output := custom_in_mix,
                                        shader_network :=
                                          Some \<lparr>mix_node = node_id connected_node,
                                                has_principled = principled_in_mix,
                                                has_custom = custom_in_mix\<rparr>\<rparr>))
                         else Inr a))))"

text \<open>
  The names of the linked inputs of the principled node. \<open>inputs.keys()\<close> lists every
  socket name, and \<open>inputs[input_name]\<close> is the first socket of that name.
\<close>

definition input_is_linked :: "node_tree \<Rightarrow> node \<Rightarrow> string \<Rightarrow> bool" where
  "input_is_linked nt n nm =
     (case socket_index (inputs n) nm of
        None \<Rightarrow> False
      | Some i \<Rightarrow> input_links nt (node_id n) i \<noteq> [])"

definition input_default :: "node \<Rightarrow> string \<Rightarrow> socket_value" where
  "input_default n nm =
     (case socket_index (inputs n) nm of
        None \<Rightarrow> NoValue
      | Some i \<Rightarrow> default_value (inputs n ! i))"

definition find_connected_inputs :: "node_tree \<Rightarrow> node \<Rightarrow> string list" where
  "find_connected_inputs nt p =
     filter (\<lambda>nm. input_is_linked nt p nm) (map sock_name (inputs p))"

text \<open>
  The test for a pure colour on an input that is not linked: a base colour away from
  \<open>(0.8, 0.8, 0.8)\<close>, a metallic value away from 0, a roughness away from 0.5. A
  socket without \<open>default_value\<close> raises \<open>AttributeError\<close>, which the source swallows.
\<close>

definition is_pure_color :: "string \<Rightarrow> socket_value \<Rightarrow> bool" where
  "is_pure_color input_name default_val =
     (case default_val of
        NoValue \<Rightarrow> False
      | ColorVal r g b _ \<Rightarrow>
          input_name = ''Base Color''
          \<and> \<not> (\<bar>r - 8/10\<bar> < 1/100 \<and> \<bar>g - 8/10\<bar> < 1/100 \<and> \<bar>b - 8/10\<bar> < 1/100)
      | VectorVal r g b \<Rightarrow>
          input_name = ''Base Color''
          \<and> \<not> (\<bar>r - 8/10\<bar> < 1/100 \<and> \<bar>g - 8/10\<bar> < 1/100 \<and> \<bar>b - 8/10\<bar> < 1/100)
      | FloatVal v \<Rightarrow>
          input_name \<in> set [''Metallic'', ''Roughness'']
          \<and> ((input_name = ''Metallic'' \<and> \<bar>v\<bar> > 1/100)
              \<or> (input_name = ''Roughness'' \<and> \<bar>v - 1/2\<bar> > 1/100)))"

definition find_pure_color_inputs :: "node_tree \<Rightarrow> node \<Rightarrow> string list" where
  "find_pure_color_inputs nt p =
     filter (\<lambda>nm. \<not> input_is_linked nt p nm \<and> is_pure_color nm (input_default p nm))
       (map sock_name (inputs p))"

text \<open>The final \<open>Determine material type\<close> chain.\<close>

definition determine_material_type :: "bool \<Rightarrow> analysis \<Rightarrow> bool \<Rightarrow> string" where
  "determine_material_type principled a connected_nonempty =
     (if principled \<and> has_custom_shaders a then
        (if principled_connected_to_output a \<and> custom_connected_to_output a
         then ''mixed_shader_network''
         else if principled_connected_to_output a then ''principled_with_custom''
         else if custom_connected_to_output a then ''custom_with_principled''
         else ''mixed_shader'')
      else if has_custom_shaders a \<and> \<not> principled then ''custom_shader''
      else if principled \<and> \<not> has_custom_shaders a then
        (if has_image_textures a \<and> has_pure_colors a then ''mixed''
         else if has_image_textures a then ''textured''
         else if has_pure_colors a \<or> connected_nonempty then ''procedural''
         else ''default'')
      else ''unknown'')"

text \<open>
  \<open>analyze_material(material)\<close>. Any exception inside the \<open>try\<close> leaves the entries
  written so far and sets \<open>material_type\<close> to \<open>'unknown'\<close>.
\<close>

definition analyze_tree :: "node_tree \<Rightarrow> analysis" where
  "analyze_tree nt =
     (let output = find_node nt ''ShaderNodeOutputMaterial'';
          principled = find_node nt ''ShaderNodeBsdfPrincipled'';
          custom = map (\<lambda>n. \<lparr>cs_node = node_id n, cs_type = bl_idname n, cs_name = node_name n,
                               cs_label = (if label n \<noteq> [] then label n else node_name n)\<rparr>)
                     (filter (\<lambda>n. bl_idname n \<in> set shader_types) (nodes nt));
          mixes = map (\<lambda>n. \<lparr>ms_node = node_id n, ms_type = bl_idname n, ms_name = node_name n\<rparr>)
                     (filter (\<lambda>n. bl_idname n \<in> set mix_types) (nodes nt));
          a1 = initial_analysis
                 \<lparr>output_node := map_option node_id output,
                  principled_node := map_option node_id principled,
                  custom_shaders := custom,
                  has_custom_shaders := (length custom > 0),
                  mix_shaders := mixes\<rparr>
      in case analyze_network nt output a1 of
           Inl e \<Rightarrow> a1\<lparr>material_type := ''unknown''\<rparr>
         | Inr a2 \<Rightarrow>
             (case principled of
                None \<Rightarrow>
                  if \<not> has_custom_shaders a2 then a2\<lparr>material_type := ''unknown''\<rparr>
                  else a2\<lparr>material_type := ''custom_shader''\<rparr>
              | Some p \<Rightarrow>
                  let image_textures =
                        filter (\<lambda>n. bl_idname n = ''ShaderNodeTexImage'' \<and> has_image n) (nodes nt);
                      connected = find_connected_inputs nt p;
                      pure = find_pure_color_inputs nt p;
                      a3 = a2\<lparr>texture_nodes := map node_id image_textures,
                              has_image_textures := (length image_textures > 0),
                              has_pure_colors := (length pure > 0),
                              pure_color_inputs := Some pure,
                              connected_inputs := Some connected\<rparr>
                  in a3\<lparr>material_type := determine_material_type True a3 (connected \<noteq> [])\<rparr>))"

definition analyze_material :: "material option \<Rightarrow> analysis" where
  "analyze_material m =
     (case m of
        None \<Rightarrow> initial_analysis
      | Some mat \<Rightarrow>
          if \<not> use_nodes mat then initial_analysis
          else (case node_tree mat of
                  None \<Rightarrow> initial_analysis
                | Some nt \<Rightarrow> analyze_tree nt))"

subsection \<open>\<open>analyze_material\<close> as a program on the host's state\<close>

text \<open>
  The same function once more, statement by statement, as a program that is handed the
  host's node tree and hands it on: every access to the host (\<open>nt.nodes\<close>,
  \<open>socket.links\<close> and \<open>socket.is_linked\<close>, \<open>link.from_node\<close>) is a step that returns
  what it read together with the tree it leaves. The attributes of a node (its type, its
  sockets and their values) are read from the node as it was enumerated.
\<close>

type_synonym 'a host = "node_tree \<Rightarrow> 'a \<times> node_tree"

definition nt_nodes :: "node list host" where
  "nt_nodes nt = (nodes nt, nt)"

definition socket_links :: "nat \<Rightarrow> nat \<Rightarrow> link list host" where
  "socket_links n i nt = (input_links nt n i, nt)"

definition link_from_node :: "link \<Rightarrow> node option host" where
  "link_from_node l nt = (get_node nt (from_node l), nt)"

text \<open>\<open>for input_socket in connected_node.inputs: if input_socket.is_linked: ...\<close>\<close>

fun analyze_mix_inputs_run ::
  "nat \<Rightarrow> nat list \<Rightarrow> bool \<times> bool \<Rightarrow> (py_error + (bool \<times> bool)) host" where
  "analyze_mix_inputs_run m [] flags nt = (Inr flags, nt)"
| "analyze_mix_inputs_run m (i # is) flags nt =
     (case socket_links m i nt of
        (ls, nt1) \<Rightarrow>
          (case ls of
             [] \<Rightarrow> analyze_mix_inputs_run m is flags nt1
           | l # _ \<Rightarrow>
               (case link_from_node l nt1 of
                  (input_node, nt2) \<Rightarrow>
                    (case input_node of
                       None \<Rightarrow> (Inl ReferenceError, nt2)
                     | Some n \<Rightarrow>
                         if bl_idname n = ''ShaderNodeBsdfPrincipled''
                         then analyze_mix_inputs_run m is (True, snd flags) nt2
                         else if bl_idname n \<in> set connected_custom_types
                         then analyze_mix_inputs_run m is (fst flags, True) nt2
                         else analyze_mix_inputs_run m is flags nt2))))"

definition analyze_network_run :: "node option \<Rightarrow> analysis \<Rightarrow> (py_error + analysis) host" where
  "analyze_network_run output a nt =
     (case output of
        None \<Rightarrow> (Inr a, nt)
      | Some out \<Rightarrow>
          (case socket_index (inputs out) ''Surface'' of
             None \<Rightarrow> (Inl KeyError, nt)
           | Some si \<Rightarrow>
               (case socket_links (node_id out) si nt of
                  (ls, nt1) \<Rightarrow>
                    (case ls of
                       [] \<Rightarrow> (Inr a, nt1)
                     | l # _ \<Rightarrow>
                         (case link_from_node l nt1 of
                            (producer, nt2) \<Rightarrow>
                              (case producer of
                                 None \<Rightarrow> (Inl ReferenceError, nt2)
                               | Some connected_node \<Rightarrow>
                                   if bl_idname connected_node = ''ShaderNodeBsdfPrincipled''
                                   then (Inr (a\<lparr>principled_connected_to_output := True\<rparr>), nt2)
                                   else if bl_idname connected_node \<in> set connected_custom_types
                                   then (Inr (a\<lparr>custom_connected_to_output := True\<rparr>), nt2)
                                   else if bl_idname connected_node \<in> set mix_types
                                   then
                                     (case analyze_mix_inputs_run (node_id connected_node)
                                             [0..<length (inputs connected_node)] (False, False) nt2 of
                                        (Inl e, nt3) \<Rightarrow> (Inl e, nt3)
                                      | (Inr (principled_in_mix, custom_in_mix), nt3) \<Rightarrow>
                                          (Inr (a\<lparr>principled_connected_to_output := principled_in_mix,
                                                   custom_connected_to_output := custom_in_mix,
                                                   shader_network :=
                                                     Some \<lparr>mix_node = node_id connected_node,
                                                           has_principled = principled_in_mix,
                                                           has_custom = custom_in_mix\<rparr>\<rparr>),
                                           nt3))
                                   else (Inr a, nt2)))))))"

text \<open>\<open>principled.inputs[input_name].is_linked\<close>, and a loop that keeps the names passing a test.\<close>

definition input_is_linked_run :: "node \<Rightarrow> string \<Rightarrow> bool host" where
  "input_is_linked_run n nm nt =
     (case socket_index (inputs n) nm of
        None \<Rightarrow> (False, nt)
      | Some i \<Rightarrow> (case socket_links (node_id n) i nt of (ls, nt1) \<Rightarrow> (ls \<noteq> [], nt1)))"

fun select_run :: "('a \<Rightarrow> bool host) \<Rightarrow> 'a list \<Rightarrow> 'a list host" where
  "select_run test [] nt = ([], nt)"
| "select_run test (x # xs) nt =
     (case test x nt of
        (b, nt1) \<Rightarrow>
          (case select_run test xs nt1 of
             (ys, nt2) \<Rightarrow> (if b then x # ys else ys, nt2)))"

definition is_pure_color_run :: "node \<Rightarrow> string \<Rightarrow> bool host" where
  "is_pure_color_run p nm nt =
     (case input_is_linked_run p nm nt of
        (linked, nt1) \<Rightarrow> (\<not> linked \<and> is_pure_color nm (input_default p nm), nt1))"

definition analyze_tree_run :: "analysis host" where
  "analyze_tree_run nt =
     (case nt_nodes nt of
        (ns1, nt1) \<Rightarrow>
     (case nt_nodes nt1 of
        (ns2, nt2) \<Rightarrow>
     (case nt_nodes nt2 of
        (ns3, nt3) \<Rightarrow>
     (case nt_nodes nt3 of
        (ns4, nt4) \<Rightarrow>
          let output = find (\<lambda>n. bl_idname n = ''ShaderNodeOutputMaterial'') ns1;
              principled = find (\<lambda>n. bl_idname n = ''ShaderNodeBsdfPrincipled'') ns2;
              custom = map (\<lambda>n. \<lparr>cs_node = node_id n, cs_type = bl_idname n,
                                   cs_name = node_name n,
                                   cs_label = (if label n \<noteq> [] then label n else node_name n)\<rparr>)
                         (filter (\<lambda>n. bl_idname n \<in> set shader_types) ns3);
              mixes = map (\<lambda>n. \<lparr>ms_node = node_id n, ms_type = bl_idname n, ms_name = node_name n\<rparr>)
                         (filter (\<lambda>n. bl_idname n \<in> set mix_types) ns4);
              a1 = initial_analysis
                     \<lparr>output_node := map_option node_id output,
                      principled_node := map_option node_id principled,
                      custom_shaders := custom,
                      has_custom_shaders := (length custom > 0),
                      mix_shaders := mixes\<rparr>
          in (case analyze_network_run output a1 nt4 of
                (Inl e, nt5) \<Rightarrow> (a1\<lparr>material_type := ''unknown''\<rparr>, nt5)
              | (Inr a2, nt5) \<Rightarrow>
                  (case principled of
                     None \<Rightarrow>
                       (if \<not> has_custom_shaders a2 then a2\<lparr>material_type := ''unknown''\<rparr>
                        else a2\<lparr>material_type := ''custom_shader''\<rparr>, nt5)
                   | Some p \<Rightarrow>
                       (case nt_nodes nt5 of
                          (ns6, nt6) \<Rightarrow>
                       (case select_run (input_is_linked_run p) (map sock_name (inputs p)) nt6 of
                          (linked_names, nt7) \<Rightarrow>
                       (case select_run (is_pure_color_run p) (map sock_name (inputs p)) nt7 of
                          (pure, nt8) \<Rightarrow>
                            let image_textures =
                                  filter (\<lambda>n. bl_idname n = ''ShaderNodeTexImage'' \<and> has_image n) ns6;
                                a3 = a2\<lparr>texture_nodes := map node_id image_textures,
                                        has_image_textures := (length image_textures > 0),
                                        has_pure_colors := (length pure > 0),
                                        pure_color_inputs := Some pure,
                                        connected_inputs := Some linked_names\<rparr>
                            in (a3\<lparr>material_type :=
                                      determine_material_type True a3 (linked_names \<noteq> [])\<rparr>,
                                nt8))))))))))"

text \<open>
  The call on the material: the result, and the material with the tree the call leaves.
\<close>

definition analyze_material_run :: "material option \<Rightarrow> analysis \<times> material option" where
  "analyze_material_run m =
     (case m of
        None \<Rightarrow> (initial_analysis, None)
      | Some mat \<Rightarrow>
          if \<not> use_nodes mat then (initial_analysis, Some mat)
          else (case node_tree mat of
                  None \<Rightarrow> (initial_analysis, Some mat)
                | Some nt \<Rightarrow>
                    (case analyze_tree_run nt of
                       (a, nt') \<Rightarrow> (a, Some (mat\<lparr>node_tree := Some nt'\<rparr>)))))"

text \<open>The sink of a tree is missing, or its \<open>Surface\<close> input has no incoming link.\<close>

definition sink_unlinked :: "node_tree \<Rightarrow> bool" where
  "sink_unlinked nt =
     (case find_node nt ''ShaderNodeOutputMaterial'' of
        None \<Rightarrow> True
      | Some out \<Rightarrow>
          (case socket_index (inputs out) ''Surface'' of
             None \<Rightarrow> False
           | Some si \<Rightarrow> input_links nt (node_id out) si = []))"


text \<open>
  An input of the combiner \<open>m\<close> whose first link comes from a principled node, or from
  a node whose type is in the code's list of custom shader types.
\<close>

definition feeds_principled :: "node_tree \<Rightarrow> nat \<Rightarrow> nat \<Rightarrow> bool" where
  "feeds_principled nt m i =
     (case input_links nt m i of
        [] \<Rightarrow> False
      | l # _ \<Rightarrow> (case get_node nt (from_node l) of
                    None \<Rightarrow> False
                  | Some n \<Rightarrow> bl_idname n = ''ShaderNodeBsdfPrincipled''))"

definition feeds_custom :: "node_tree \<Rightarrow> nat \<Rightarrow> nat \<Rightarrow> bool" where
  "feeds_custom nt m i =
     (case input_links nt m i of
        [] \<Rightarrow> False
      | l # _ \<Rightarrow> (case get_node nt (from_node l) of
                    None \<Rightarrow> False
                  | Some n \<Rightarrow> bl_idname n \<in> set connected_custom_types))"

section \<open>Temporary rewiring of the sink\<close>

text \<open>
  The four context managers are generators: the code before \<open>yield\<close> runs on entry,
  the \<open>finally\<close> block on exit. Each is modelled by an entry function and an exit
  function. Entry returns the tree it leaves and either the exception it raised or the
  value it yields together with what its \<open>finally\<close> block needs (\<open>None\<close> when the
  generator yields outside any \<open>try\<close> and returns, so that nothing runs on exit).

  A socket is written \<open>(node, position)\<close>. The new Emission node has its \<open>Color\<close> input
  and its \<open>Emission\<close> output at position 0, the new RGB node its \<open>Color\<close> output.
\<close>

type_synonym socket_ref = "nat \<times> nat"

definition from_socket_of :: "link \<Rightarrow> socket_ref" where
  "from_socket_of l = (from_node l, from_socket l)"

definition to_socket_of :: "link \<Rightarrow> socket_ref" where
  "to_socket_of l = (to_node l, to_socket l)"

text \<open>\<open>for link in list(socket.links): nt.links.remove(link)\<close>.\<close>

definition remove_links :: "node_tree \<Rightarrow> link list \<Rightarrow> node_tree" where
  "remove_links nt ls = fold (\<lambda>l t. links_remove t l) ls nt"

text \<open>\<open>for frm, to in original_links: nt.links.new(frm, to)\<close>.\<close>

definition restore_links :: "node_tree \<Rightarrow> (socket_ref \<times> socket_ref) list \<Rightarrow> node_tree" where
  "restore_links nt ps = fold (\<lambda>(frm, to) t. links_new t frm to) ps nt"

text \<open>The first of the candidate output names that the node has.\<close>

definition first_named_output :: "node \<Rightarrow> string list \<Rightarrow> nat option" where
  "first_named_output n names =
     (case find (\<lambda>nm. socket_index (outputs n) nm \<noteq> None) names of
        None \<Rightarrow> None
      | Some nm \<Rightarrow> socket_index (outputs n) nm)"

definition shader_output_names :: "string list" where
  "shader_output_names = [''Shader'', ''BSDF'', ''Surface'', ''Color'', ''Output'']"

subsection \<open>\<open>temporary_emission_surface\<close>\<close>

record surface_probe =
  sp_emit :: nat
  sp_from_socket :: socket_ref
  sp_to_socket :: socket_ref

text \<open>
  The output of the sink's producer that is wired to the Emission node, by the type of
  the producer; \<open>None\<close> when \<open>connection_made\<close> stays false and the original output
  socket is used.
\<close>

definition surface_probe_output :: "node \<Rightarrow> nat option" where
  "surface_probe_output original_from_node =
     (if bl_idname original_from_node = ''ShaderNodeNodeGroup'' then
        (case first_named_output original_from_node shader_output_names of
           Some k \<Rightarrow> Some k
         | None \<Rightarrow> if length (outputs original_from_node) > 0 then Some 0 else None)
      else if bl_idname original_from_node \<in> set
           [''ShaderNodeBsdfDiffuse'', ''ShaderNodeBsdfGlossy'', ''ShaderNodeBsdfTransparent'',
            ''ShaderNodeBsdfTranslucent'', ''ShaderNodeBsdfGlass'', ''ShaderNodeBsdfRefraction'',
            ''ShaderNodeBsdfAnisotropic'', ''ShaderNodeBsdfVelvet'', ''ShaderNodeBsdfToon'',
            ''ShaderNodeSubsurfaceScattering'', ''ShaderNodeBsdfHair'',
            ''ShaderNodeBsdfHairPrincipled'', ''ShaderNodeBsdfSheen'']
      then socket_index (outputs original_from_node) ''BSDF''
      else if bl_idname original_from_node = ''ShaderNodeEmission''
      then socket_index (outputs original_from_node) ''Emission''
      else if bl_idname original_from_node \<in> set [''ShaderNodeMixShader'', ''ShaderNodeAddShader'']
      then socket_index (outputs original_from_node) ''Shader''
      else None)"

definition temporary_emission_surface_enter ::
  "node_tree \<Rightarrow> node_tree \<times> (py_error + (nat option \<times> surface_probe option))" where
  "temporary_emission_surface_enter nt =
     (case find_node nt ''ShaderNodeOutputMaterial'' of
        None \<Rightarrow> (nt, Inr (None, None))
      | Some output \<Rightarrow>
          (case socket_index (inputs output) ''Surface'' of
             None \<Rightarrow> (nt, Inl KeyError)
           | Some si \<Rightarrow>
               (case input_links nt (node_id output) si of
                  [] \<Rightarrow> (nt, Inr (None, None))
                | original_surface_link # _ \<Rightarrow>
                    (case get_node nt (from_node original_surface_link) of
                       None \<Rightarrow> (nt, Inl ReferenceError)
                     | Some original_from_node \<Rightarrow>
                         let original_from_socket = from_socket_of original_surface_link;
                             original_to_socket = to_socket_of original_surface_link;
                             nt1 = links_remove nt original_surface_link;
                             (nt2, emit) = nodes_new nt1 ''ShaderNodeEmission'';
                             nt3 = set_label nt2 emit ''Custom Shader Bake'';
                             nt4 = (case surface_probe_output original_from_node of
                                      Some k \<Rightarrow> links_new nt3 (node_id original_from_node, k) (emit, 0)
                                    | None \<Rightarrow> links_new nt3 original_from_socket (emit, 0));
                             nt5 = links_new nt4 (emit, 0) (node_id output, si)
                         in (nt5, Inr (Some emit,
                                Some \<lparr>sp_emit = emit, sp_from_socket = original_from_socket,
                                      sp_to_socket = original_to_socket\<rparr>))))))"

definition temporary_emission_surface_exit :: "surface_probe \<Rightarrow> node_tree \<Rightarrow> node_tree" where
  "temporary_emission_surface_exit r nt =
     (let emit = sp_emit r;
          nt1 = remove_links nt (output_links nt emit 0);
          nt2 = remove_links nt1 (input_links nt1 emit 0);
          temp_nodes_to_remove =
            filter (\<lambda>n. label n = ''Temp RGB for Custom Shader'') (nodes nt2);
          nt3 = fold (\<lambda>n t. nodes_remove t (node_id n)) temp_nodes_to_remove nt2;
          nt4 = nodes_remove nt3 emit
      in links_new nt4 (sp_from_socket r) (sp_to_socket r))"

subsection \<open>\<open>temporary_principled_only_surface\<close> and \<open>temporary_custom_shader_only_surface\<close>\<close>

record restricted_probe =
  rp_emit :: nat
  rp_original_links :: "(socket_ref \<times> socket_ref) list"

text \<open>
  The common prologue of the two managers: save the links of the sink's \<open>Surface\<close>
  input, remove them, and create the Emission node with its label.
\<close>

definition detach_surface ::
  "node_tree \<Rightarrow> node \<Rightarrow> nat \<Rightarrow> string \<Rightarrow> node_tree \<times> restricted_probe" where
  "detach_surface nt output si emit_label =
     (let surface_links = input_links nt (node_id output) si;
          original_links = map (\<lambda>l. (from_socket_of l, to_socket_of l)) surface_links;
          nt1 = remove_links nt surface_links;
          (nt2, emit) = nodes_new nt1 ''ShaderNodeEmission'';
          nt3 = set_label nt2 emit emit_label
      in (nt3, \<lparr>rp_emit = emit, rp_original_links = original_links\<rparr>))"

definition temporary_principled_only_surface_enter ::
  "node option \<Rightarrow> node_tree \<Rightarrow> node_tree \<times> (py_error + (nat option \<times> restricted_probe option))" where
  "temporary_principled_only_surface_enter principled_arg nt =
     (case (find_node nt ''ShaderNodeOutputMaterial'', principled_arg) of
        (Some output, Some p) \<Rightarrow>
          (case socket_index (inputs output) ''Surface'' of
             None \<Rightarrow> (nt, Inl KeyError)
           | Some si \<Rightarrow>
               let (nt3, r) = detach_surface nt output si ''Principled Only Bake'';
                   emit = rp_emit r;
                   nt4 = (case socket_index (outputs p) ''BSDF'' of
                            Some k \<Rightarrow> links_new nt3 (node_id p, k) (emit, 0)
                          | None \<Rightarrow>
                              if length (outputs p) > 0
                              then links_new nt3 (node_id p, 0) (emit, 0) else nt3);
                   nt5 = links_new nt4 (emit, 0) (node_id output, si)
               in (nt5, Inr (Some emit, Some r)))
      | _ \<Rightarrow> (nt, Inr (None, None)))"

definition custom_only_output :: "node \<Rightarrow> nat option" where
  "custom_only_output custom_shader_node =
     (case (if bl_idname custom_shader_node = ''ShaderNodeNodeGroup''
            then first_named_output custom_shader_node shader_output_names
            else if bl_idname custom_shader_node = ''ShaderNodeEmission''
            then socket_index (outputs custom_shader_node) ''Emission''
            else socket_index (outputs custom_shader_node) ''BSDF'') of
        Some k \<Rightarrow> Some k
      | None \<Rightarrow> if length (outputs custom_shader_node) > 0 then Some 0 else None)"

definition temporary_custom_shader_only_surface_enter ::
  "node option \<Rightarrow> node_tree \<Rightarrow> node_tree \<times> (py_error + (nat option \<times> restricted_probe option))" where
  "temporary_custom_shader_only_surface_enter custom_shader_node nt =
     (case (find_node nt ''ShaderNodeOutputMaterial'', custom_shader_node) of
        (Some output, Some c) \<Rightarrow>
          (case socket_index (inputs output) ''Surface'' of
             None \<Rightarrow> (nt, Inl KeyError)
           | Some si \<Rightarrow>
               let (nt3, r) = detach_surface nt output si ''Custom Shader Only Bake'';
                   emit = rp_emit r
               in (case custom_only_output c of
                     Some k \<Rightarrow>
                       (links_new (links_new nt3 (node_id c, k) (emit, 0)) (emit, 0) (node_id output, si),
                        Inr (Some emit, Some r))
                   | None \<Rightarrow> (nt3, Inr (None, Some r))))
      | _ \<Rightarrow> (nt, Inr (None, None)))"

definition restricted_probe_exit :: "restricted_probe \<Rightarrow> node_tree \<Rightarrow> node_tree" where
  "restricted_probe_exit r nt =
     (let emit = rp_emit r;
          nt1 = remove_links nt (output_links nt emit 0);
          nt2 = remove_links nt1 (input_links nt1 emit 0);
          nt3 = nodes_remove nt2 emit
      in restore_links nt3 (rp_original_links r))"

subsection \<open>\<open>temporary_emission_input\<close>\<close>

record input_probe =
  ip_tmp_nodes :: "nat list"
  ip_orig_links :: "(socket_ref \<times> socket_ref) list"

text \<open>
  \<open>for frm, to in orig_links: if frm.links: nt.links.remove(frm.links[0])\<close>: what is
  removed is the first link of the tree that leaves the producer's output socket.
\<close>

definition remove_first_links :: "node_tree \<Rightarrow> (socket_ref \<times> socket_ref) list \<Rightarrow> node_tree" where
  "remove_first_links nt ps =
     fold (\<lambda>(frm, to) t.
             (case output_links t (fst frm) (snd frm) of
                [] \<Rightarrow> t
              | l # _ \<Rightarrow> links_remove t l)) ps nt"

text \<open>
  The colour written to the new RGB node: a value with at least three components is
  assigned as it is (the host raises \<open>ValueError\<close> when it has not the four components of
  a colour), a float is spread over the three channels.
\<close>

definition probe_color :: "socket_value \<Rightarrow> py_error + socket_value" where
  "probe_color val =
     (case val of
        ColorVal r g b a \<Rightarrow> Inr (ColorVal r g b a)
      | VectorVal x y z \<Rightarrow> Inl ValueError
      | FloatVal v \<Rightarrow> Inr (ColorVal v v v 1)
      | NoValue \<Rightarrow> Inr NoValue)"

definition temporary_emission_input_enter ::
  "string \<Rightarrow> real \<Rightarrow> node_tree \<Rightarrow> node_tree \<times> (py_error + (nat list option \<times> input_probe option))" where
  "temporary_emission_input_enter input_name dflt nt =
     (case (find_node nt ''ShaderNodeOutputMaterial'', find_node nt ''ShaderNodeBsdfPrincipled'') of
        (Some output, Some principled) \<Rightarrow>
          (case socket_index (inputs principled) input_name of
             None \<Rightarrow> (nt, Inr (None, None))
           | Some ti \<Rightarrow>
               (case socket_index (inputs output) ''Surface'' of
                  None \<Rightarrow> (nt, Inl KeyError)
                | Some si \<Rightarrow>
                    let orig_links = map (\<lambda>l. (from_socket_of l, to_socket_of l))
                                       (input_links nt (node_id output) si);
                        nt1 = remove_first_links nt orig_links;
                        (nt2, emit) = nodes_new nt1 ''ShaderNodeEmission''
                    in (case input_links nt2 (node_id principled) ti of
                          l # _ \<Rightarrow>
                            (links_new (links_new nt2 (from_socket_of l) (emit, 0))
                               (emit, 0) (node_id output, si),
                             Inr (Some [emit],
                                  Some \<lparr>ip_tmp_nodes = [emit], ip_orig_links = orig_links\<rparr>))
                        | [] \<Rightarrow>
                            let (nt3, rgb) = nodes_new nt2 ''ShaderNodeRGB''
                            in (case default_value (inputs principled ! ti) of
                                  NoValue \<Rightarrow>
                                    let (nt4, rgb2) = nodes_new nt3 ''ShaderNodeRGB'';
                                        nt5 = set_output_default nt4 rgb2 0 (ColorVal dflt dflt dflt 1);
                                        nt6 = links_new nt5 (rgb2, 0) (emit, 0);
                                        nt7 = links_new nt6 (emit, 0) (node_id output, si)
                                    in (nt7, Inr (Some [emit, rgb2],
                                          Some \<lparr>ip_tmp_nodes = [emit, rgb2],
                                                ip_orig_links = orig_links\<rparr>))
                                | val \<Rightarrow>
                                    (case probe_color val of
                                       Inl e \<Rightarrow> (nt3, Inl e)
                                     | Inr c \<Rightarrow>
                                         let nt4 = set_output_default nt3 rgb 0 c;
                                             nt5 = links_new nt4 (rgb, 0) (emit, 0);
                                             nt6 = links_new nt5 (emit, 0) (node_id output, si)
                                         in (nt6, Inr (Some [emit, rgb],
                                               Some \<lparr>ip_tmp_nodes = [emit, rgb],
                                                     ip_orig_links = orig_links\<rparr>)))))))
      | _ \<Rightarrow> (nt, Inr (None, None)))"

definition temporary_emission_input_exit :: "input_probe \<Rightarrow> node_tree \<Rightarrow> node_tree" where
  "temporary_emission_input_exit r nt =
     restore_links
       (fold (\<lambda>n t. nodes_remove
                       (case output_links t n 0 of [] \<Rightarrow> t | l # _ \<Rightarrow> links_remove t l) n)
          (ip_tmp_nodes r) nt)
       (ip_orig_links r)"

section \<open>The bake operator\<close>

subsection \<open>State\<close>

text \<open>
  What \<open>MBNL_OT_bake.execute\<close> works on while it bakes one material of one object: the
  material's node tree, the UV coordinates of the object's face loops, and, as logs, the
  calls of the host's bake operator, the images written with \<open>img.save()\<close>, the
  dictionary \<open>all_baked_images\<close> and the rebuilds of the node tree.
\<close>

record image =
  img_suffix :: string
  img_width :: nat
  img_height :: nat
  img_tile :: int

datatype image_content = EngineBaked | UniformColor real real real real | Unwritten

record bm_loop =
  loop_index :: nat
  loop_uv :: "real \<times> real"

record uv_mesh =
  faces :: "bm_loop list list"
  has_uv_layer :: bool

text \<open>
  A call of the host's bake operator: what it is asked for, and what it evaluates, the
  node tree as it is wired and the object's UV coordinates as they are at the call.
\<close>

record bake_call =
  bc_type :: string
  bc_use_lighting :: bool
  bc_image :: image
  bc_tree :: node_tree
  bc_mesh :: uv_mesh

record bake_state =
  tree :: node_tree
  obj_mesh :: uv_mesh
  engine_calls :: "bake_call list"
  saved :: "(image \<times> image_content) list"
  all_baked_images :: "((nat \<times> nat) \<times> (string \<times> image) list) list"
  rebuilds :: "((nat \<times> nat) \<times> string list) list"

text \<open>The principled node is missing, or it has no input of the given name.\<close>

definition principled_input_missing :: "node_tree \<Rightarrow> string \<Rightarrow> bool" where
  "principled_input_missing nt input_name =
     (case find_node nt ''ShaderNodeBsdfPrincipled'' of
        None \<Rightarrow> True
      | Some p \<Rightarrow> socket_index (inputs p) input_name = None)"

subsection \<open>The \<open>with\<close> statement\<close>

text \<open>
  \<open>with manager as y: body\<close>: if entry raises, the body and the exit do not run;
  otherwise the body runs with the yielded value, and the exit code runs whether the
  body returns or raises. The body returns the state and the exception it raised, if any.
\<close>

definition run_with ::
  "(node_tree \<Rightarrow> node_tree \<times> (py_error + ('y \<times> 'r option))) \<Rightarrow> ('r \<Rightarrow> node_tree \<Rightarrow> node_tree)
     \<Rightarrow> ('y \<Rightarrow> bake_state \<Rightarrow> bake_state \<times> py_error option)
     \<Rightarrow> bake_state \<Rightarrow> bake_state \<times> py_error option" where
  "run_with enter exit body st =
     (case enter (tree st) of
        (nt1, Inl e) \<Rightarrow> (st\<lparr>tree := nt1\<rparr>, Some e)
      | (nt1, Inr (y, r)) \<Rightarrow>
          (case body y (st\<lparr>tree := nt1\<rparr>) of
             (st2, exc) \<Rightarrow>
               ((case r of None \<Rightarrow> st2 | Some rc \<Rightarrow> st2\<lparr>tree := exit rc (tree st2)\<rparr>), exc)))"

subsection \<open>UDIM: the functions meant to move a tile's UV coordinates into the 0-1 window\<close>

text \<open>
  \<open>normalize_udim_uvs_for_baking(obj, udim_number)\<close> builds a BMesh with
  \<open>bm = bmesh.new(); bm.from_mesh(obj.data)\<close>, a copy of the object's mesh. On that copy
  it visits every loop of every face, stores a copy of its UV coordinate under the
  loop's index, and, when the coordinate lies in the tile, subtracts the tile's offset
  (\<open>normalize_bmesh\<close>: the copy as it is when freed, and the dictionary of the stored
  coordinates, an association list in which later assignments replace earlier ones).
  The copy is then freed with \<open>bm.free()\<close>; it is never written back with
  \<open>bm.to_mesh\<close>, and \<open>bmesh.update_edit_mesh(obj.data)\<close> concerns the mesh's own edit
  mesh, not \<open>bm\<close>. So the object's mesh is after the call what it was before, and the
  function returns the dictionary.
\<close>

definition in_tile :: "udim_bounds \<Rightarrow> real \<times> real \<Rightarrow> bool" where
  "in_tile bounds uv =
     (u_min bounds \<le> fst uv \<and> fst uv < u_max bounds
      \<and> v_min bounds \<le> snd uv \<and> snd uv < v_max bounds)"

definition normalize_loop :: "udim_bounds \<Rightarrow> bm_loop \<Rightarrow> bm_loop" where
  "normalize_loop bounds l =
     (if in_tile bounds (loop_uv l)
      then l\<lparr>loop_uv := (fst (loop_uv l) - of_int (tile_u bounds),
                          snd (loop_uv l) - of_int (tile_v bounds))\<rparr>
      else l)"

definition normalize_bmesh ::
  "uv_mesh \<Rightarrow> int \<Rightarrow> uv_mesh \<times> (nat \<times> (real \<times> real)) list" where
  "normalize_bmesh bm udim_number =
     (let bounds = get_udim_tile_bounds udim_number
      in if \<not> has_uv_layer bm then (bm, [])
         else (bm\<lparr>faces := map (map (normalize_loop bounds)) (faces bm)\<rparr>,
               fold (\<lambda>l d. AList.update (loop_index l) (loop_uv l) d) (concat (faces bm)) []))"

text \<open>The result is the object's mesh after the call, and the returned dictionary.\<close>

definition normalize_udim_uvs_for_baking ::
  "uv_mesh \<Rightarrow> int \<Rightarrow> uv_mesh \<times> (nat \<times> (real \<times> real)) list" where
  "normalize_udim_uvs_for_baking m udim_number =
     (case normalize_bmesh m udim_number of
        (bm, original_uvs) \<Rightarrow> (m, original_uvs))"

text \<open>
  \<open>restore_udim_uvs(obj, original_uvs)\<close> works in the same way on a new copy of the
  object's mesh (\<open>restore_bmesh\<close>), which it frees without writing it back.
\<close>

definition restore_loop :: "(nat \<times> (real \<times> real)) list \<Rightarrow> bm_loop \<Rightarrow> bm_loop" where
  "restore_loop original_uvs l =
     (case map_of original_uvs (loop_index l) of
        Some uv \<Rightarrow> l\<lparr>loop_uv := uv\<rparr>
      | None \<Rightarrow> l)"

definition restore_bmesh :: "uv_mesh \<Rightarrow> (nat \<times> (real \<times> real)) list \<Rightarrow> uv_mesh" where
  "restore_bmesh bm original_uvs =
     (if \<not> has_uv_layer bm then bm
      else bm\<lparr>faces := map (map (restore_loop original_uvs)) (faces bm)\<rparr>)"

definition restore_udim_uvs :: "uv_mesh \<Rightarrow> (nat \<times> (real \<times> real)) list \<Rightarrow> uv_mesh" where
  "restore_udim_uvs m original_uvs =
     (if original_uvs = [] then m
      else (let bm = restore_bmesh m original_uvs in m))"

subsection \<open>Settings and passes\<close>

record settings =
  include_basecolor :: bool
  include_roughness :: bool
  include_metallic :: bool
  include_normal :: bool
  include_subsurface :: bool
  include_transmission :: bool
  include_emission :: bool
  include_alpha :: bool
  include_specular :: bool
  include_clearcoat :: bool
  include_clearcoat_roughness :: bool
  include_sheen :: bool
  include_displacement :: bool
  include_ambient_occlusion :: bool
  include_custom_shader :: bool
  include_lighting :: bool
  replace_nodes :: bool
  enable_udim :: bool
  mixed_shader_strategy :: string

text \<open>A pass is the tuple \<open>(suffix, btype, pfilter, alpha, emission_input)\<close>.\<close>

record bake_pass =
  p_suffix :: string
  p_btype :: string
  p_pfilter :: "string option"
  p_alpha :: bool
  p_emission_input :: "string option"

text \<open>
  \<open>create_input_mapping()\<close>: for every channel the first candidate name among the input
  names of the host's principled node, the first candidate if none is there. The input
  names of the running host version are a parameter.
\<close>

definition mapping_candidates :: "(string \<times> string list) list" where
  "mapping_candidates =
     [(''BaseColor'', [''Base Color'', ''BaseColor'']),
      (''Metallic'', [''Metallic'']),
      (''Roughness'', [''Roughness'']),
      (''Subsurface'', [''Subsurface'', ''Subsurface Weight'', ''Subsurface Radius'']),
      (''Transmission'', [''Transmission'', ''Transmission Weight'']),
      (''Emission'', [''Emission'', ''Emission Color'']),
      (''Alpha'', [''Alpha'']),
      (''Specular'', [''Specular'', ''Specular IOR'', ''IOR'']),
      (''Clearcoat'', [''Clearcoat'', ''Clearcoat Weight'']),
      (''ClearcoatRoughness'', [''Clearcoat Roughness'']),
      (''Sheen'', [''Sheen'', ''Sheen Weight''])]"

definition create_input_mapping :: "string list \<Rightarrow> (string \<times> string) list" where
  "create_input_mapping available_inputs =
     map (\<lambda>(key, candidates).
            (key, (case find (\<lambda>c. c \<in> set available_inputs) candidates of
                     Some c \<Rightarrow> c
                   | None \<Rightarrow> (case candidates of c # _ \<Rightarrow> c | [] \<Rightarrow> []))))
       mapping_candidates"

definition mk_pass :: "string \<Rightarrow> string \<Rightarrow> bool \<Rightarrow> string option \<Rightarrow> bake_pass" where
  "mk_pass suffix btype alpha emission_input =
     \<lparr>p_suffix = suffix, p_btype = btype, p_pfilter = None, p_alpha = alpha,
      p_emission_input = emission_input\<rparr>"

text \<open>
  \<open>Build pass list based on selections\<close>. The custom shader pass is added when the
  sink found by the analysis has its \<open>Surface\<close> input linked.
\<close>

definition custom_shader_requested :: "node_tree \<Rightarrow> analysis \<Rightarrow> py_error + bool" where
  "custom_shader_requested nt a =
     (case output_node a of
        None \<Rightarrow> Inr False
      | Some oid \<Rightarrow>
          (case get_node nt oid of
             None \<Rightarrow> Inl ReferenceError
           | Some out \<Rightarrow>
               (case socket_index (inputs out) ''Surface'' of
                  None \<Rightarrow> Inl KeyError
                | Some si \<Rightarrow> Inr (input_links nt oid si \<noteq> []))))"

definition build_passes ::
  "settings \<Rightarrow> analysis \<Rightarrow> (string \<times> string) list \<Rightarrow> bool \<Rightarrow> bake_pass list" where
  "build_passes s a input_mapping custom_linked =
     (if include_basecolor s then
        (if include_lighting s then [mk_pass ''BaseColor'' ''COMBINED'' True None]
         else [mk_pass ''BaseColor'' ''EMIT'' True (map_of input_mapping ''BaseColor'')])
      else [])
     @ (if include_roughness s then
          (if material_type a \<in> set [''procedural'', ''default''] \<and> \<not> has_image_textures a
           then [mk_pass ''Roughness'' ''EMIT'' False (map_of input_mapping ''Roughness'')]
           else [mk_pass ''Roughness'' ''ROUGHNESS'' False None])
        else [])
     @ (if include_metallic s
        then [mk_pass ''Metallic'' ''EMIT'' False (map_of input_mapping ''Metallic'')] else [])
     @ (if include_normal s then [mk_pass ''Normal'' ''NORMAL'' False None] else [])
     @ (if include_subsurface s
        then [mk_pass ''Subsurface'' ''EMIT'' False (map_of input_mapping ''Subsurface'')] else [])
     @ (if include_transmission s
        then [mk_pass ''Transmission'' ''EMIT'' False (map_of input_mapping ''Transmission'')] else [])
     @ (if include_emission s
        then [mk_pass ''Emission'' ''EMIT'' False (map_of input_mapping ''Emission'')] else [])
     @ (if include_alpha s
        then [mk_pass ''Alpha'' ''EMIT'' False (map_of input_mapping ''Alpha'')] else [])
     @ (if include_specular s
        then [mk_pass ''Specular'' ''EMIT'' False (map_of input_mapping ''Specular'')] else [])
     @ (if include_clearcoat s
        then [mk_pass ''Clearcoat'' ''EMIT'' False (map_of input_mapping ''Clearcoat'')] else [])
     @ (if include_clearcoat_roughness s
        then [mk_pass ''ClearcoatRoughness'' ''EMIT'' False
                (map_of input_mapping ''ClearcoatRoughness'')] else [])
     @ (if include_sheen s
        then [mk_pass ''Sheen'' ''EMIT'' False (map_of input_mapping ''Sheen'')] else [])
     @ (if include_displacement s then [mk_pass ''Displacement'' ''EMIT'' False None] else [])
     @ (if include_ambient_occlusion s then [mk_pass ''AO'' ''AO'' False None] else [])
     @ (if include_custom_shader s \<and> custom_linked
        then [mk_pass ''CustomShader'' ''EMIT'' True None] else [])"

subsection \<open>One pass\<close>

text \<open>
  \<open>bake_generic\<close>: the call of the host's bake operator, which is outside the add-on.
  The operator evaluates the tree and the UV coordinates as they are at the call. The
  parameter \<open>engine\<close> tells for each call whether the operator succeeds; a failing
  call raises \<open>RuntimeError\<close>. The call is logged either way.
\<close>

definition bake_generic ::
  "(bake_call \<Rightarrow> bool) \<Rightarrow> string \<Rightarrow> bool \<Rightarrow> image \<Rightarrow> bake_state
     \<Rightarrow> bake_state \<times> py_error option" where
  "bake_generic engine bake_type use_lighting img st =
     (let c = \<lparr>bc_type = bake_type, bc_use_lighting = use_lighting, bc_image = img,
                bc_tree = tree st, bc_mesh = obj_mesh st\<rparr>
      in (st\<lparr>engine_calls := engine_calls st @ [c]\<rparr>,
          if engine c then None else Some RuntimeError))"

text \<open>
  The skip test of \<open>execute\<close> (\<open>should_bake\<close>): for a material of type
  \<open>'procedural'\<close> or \<open>'default'\<close> without image textures, a pass with an emission input
  that the principled node has, unlinked, is not baked when the input's value is a
  float within 0.01 of 0 (of 0.5 for Roughness) and the pass is one of those listed.
  \<open>abs\<close> of a value that is not a number raises \<open>TypeError\<close>, which is swallowed.
\<close>

definition skip_value :: "string \<Rightarrow> socket_value \<Rightarrow> bool" where
  "skip_value suffix default_val =
     (case default_val of
        FloatVal v \<Rightarrow>
          (if suffix = ''Metallic'' \<and> \<bar>v\<bar> < 1/100 then True
           else if suffix = ''Roughness'' \<and> \<bar>v - 1/2\<bar> < 1/100 then True
           else if suffix \<in> set [''Subsurface'', ''Transmission'', ''Specular'', ''Clearcoat'', ''Sheen'']
                   \<and> \<bar>v\<bar> < 1/100 then True
           else False)
      | _ \<Rightarrow> False)"

definition should_bake :: "analysis \<Rightarrow> node_tree \<Rightarrow> bake_pass \<Rightarrow> py_error + bool" where
  "should_bake a nt ps =
     (if material_type a \<in> set [''procedural'', ''default''] \<and> \<not> has_image_textures a then
        (case p_emission_input ps of
           None \<Rightarrow> Inr True
         | Some emission_input \<Rightarrow>
             if emission_input = [] then Inr True
             else
               (case principled_node a of
                  None \<Rightarrow> Inr True
                | Some pid \<Rightarrow>
                    (case get_node nt pid of
                       None \<Rightarrow> Inl ReferenceError
                     | Some principled \<Rightarrow>
                         (case socket_index (inputs principled) emission_input of
                            None \<Rightarrow> Inr True
                          | Some k \<Rightarrow>
                              if input_links nt pid k \<noteq> [] then Inr True
                              else Inr (\<not> skip_value (p_suffix ps)
                                           (default_value (inputs principled ! k)))))))
      else Inr True)"

text \<open>
  \<open>img.save()\<close> followed by \<open>all_baked_images[resolution_key][suffix] = img\<close>.
\<close>

definition record_image ::
  "nat \<times> nat \<Rightarrow> image \<Rightarrow> image_content \<Rightarrow> bake_state \<Rightarrow> bake_state" where
  "record_image resolution_key img content st =
     (let abi = all_baked_images st
      in st\<lparr>saved := saved st @ [(img, content)],
            all_baked_images :=
              (case map_of abi resolution_key of
                 None \<Rightarrow> abi
               | Some d \<Rightarrow> AList.update resolution_key (AList.update (img_suffix img) img d) abi)\<rparr>)"

text \<open>\<open>with ... as temp_emit: if temp_emit: self.bake_generic(...)\<close> and its uses.\<close>

definition bake_if ::
  "(bake_state \<Rightarrow> bake_state \<times> py_error option) \<Rightarrow> nat option
     \<Rightarrow> bake_state \<Rightarrow> bake_state \<times> py_error option" where
  "bake_if bake temp_emit st = (if temp_emit \<noteq> None then bake st else (st, None))"

definition bake_full_surface ::
  "(bake_state \<Rightarrow> bake_state \<times> py_error option) \<Rightarrow> bake_state \<Rightarrow> bake_state \<times> py_error option" where
  "bake_full_surface bake st =
     run_with temporary_emission_surface_enter temporary_emission_surface_exit (bake_if bake) st"

definition bake_restricted ::
  "(node_tree \<Rightarrow> node_tree \<times> (py_error + (nat option \<times> restricted_probe option)))
     \<Rightarrow> (bake_state \<Rightarrow> bake_state \<times> py_error option)
     \<Rightarrow> bake_state \<Rightarrow> bake_state \<times> py_error option" where
  "bake_restricted enter bake st =
     run_with enter restricted_probe_exit
       (\<lambda>temp_emit s. if temp_emit \<noteq> None then bake s else bake_full_surface bake s) st"

text \<open>
  For a material that is not a mixed shader network the source first reads the type and
  name of the sink's producer for its report; only the exceptions of these reads matter.
\<close>

definition inspect_surface_shader :: "node_tree \<Rightarrow> analysis \<Rightarrow> py_error option" where
  "inspect_surface_shader nt a =
     (case output_node a of
        None \<Rightarrow> None
      | Some oid \<Rightarrow>
          (case get_node nt oid of
             None \<Rightarrow> Some ReferenceError
           | Some out \<Rightarrow>
               (case socket_index (inputs out) ''Surface'' of
                  None \<Rightarrow> Some KeyError
                | Some si \<Rightarrow>
                    (case input_links nt oid si of
                       [] \<Rightarrow> None
                     | l # _ \<Rightarrow>
                         (case get_node nt (from_node l) of
                            None \<Rightarrow> Some ReferenceError
                          | Some _ \<Rightarrow> None)))))"

text \<open>The custom shader pass, with the strategies for mixed shader materials.\<close>

definition bake_custom_shader ::
  "settings \<Rightarrow> analysis \<Rightarrow> (bake_state \<Rightarrow> bake_state \<times> py_error option)
     \<Rightarrow> bake_state \<Rightarrow> bake_state \<times> py_error option" where
  "bake_custom_shader s a bake st =
     (if material_type a \<in> set [''mixed_shader_network'', ''principled_with_custom'',
                                ''custom_with_principled''] then
        (if mixed_shader_strategy s = ''PRINCIPLED_ONLY'' then
           (case principled_node a of
              Some pid \<Rightarrow>
                (case get_node (tree st) pid of
                   None \<Rightarrow> (st, Some ReferenceError)
                 | Some p \<Rightarrow> bake_restricted (temporary_principled_only_surface_enter (Some p)) bake st)
            | None \<Rightarrow> bake_full_surface bake st)
         else if mixed_shader_strategy s = ''CUSTOM_ONLY'' then
           (case custom_shaders a of
              first_custom # _ \<Rightarrow>
                (case get_node (tree st) (cs_node first_custom) of
                   None \<Rightarrow> (st, Some ReferenceError)
                 | Some c \<Rightarrow> bake_restricted (temporary_custom_shader_only_surface_enter (Some c)) bake st)
            | [] \<Rightarrow> bake_full_surface bake st)
         else bake_full_surface bake st)
      else
        (case inspect_surface_shader (tree st) a of
           Some e \<Rightarrow> (st, Some e)
         | None \<Rightarrow> bake_full_surface bake st))"

text \<open>
  The base colour pass with lighting: a metallic value above 0.8 is lowered to 0.2 for
  the bake and put back afterwards.
\<close>

definition bake_lighting_basecolor ::
  "analysis \<Rightarrow> (bake_state \<Rightarrow> bake_state \<times> py_error option)
     \<Rightarrow> bake_state \<Rightarrow> bake_state \<times> py_error option" where
  "bake_lighting_basecolor a bake st =
     (case principled_node a of
        None \<Rightarrow> bake st
      | Some pid \<Rightarrow>
          (case get_node (tree st) pid of
             None \<Rightarrow> (st, Some ReferenceError)
           | Some principled \<Rightarrow>
               (case socket_index (inputs principled) ''Metallic'' of
                  None \<Rightarrow> bake st
                | Some k \<Rightarrow>
                    if input_links (tree st) pid k \<noteq> [] then bake st
                    else
                      (case default_value (inputs principled ! k) of
                         NoValue \<Rightarrow> (st, Some AttributeError)
                       | FloatVal original_metallic \<Rightarrow>
                           if original_metallic > 8/10 then
                             (case bake (st\<lparr>tree := set_input_default (tree st) pid k
                                                      (FloatVal (2/10))\<rparr>) of
                                (st1, exc) \<Rightarrow>
                                  (st1\<lparr>tree := set_input_default (tree st1) pid k
                                                   (FloatVal original_metallic)\<rparr>, exc))
                           else
                             (case bake st of
                                (st1, exc) \<Rightarrow>
                                  (st1\<lparr>tree := set_input_default (tree st1) pid k
                                                   (FloatVal original_metallic)\<rparr>, exc))
                       | original_metallic \<Rightarrow>
                           (st\<lparr>tree := set_input_default (tree st) pid k original_metallic\<rparr>,
                            Some TypeError)))))"

text \<open>
  The branch for a skipped pass: an image filled with the input's constant is written
  instead of a bake.
\<close>

definition fill_constant ::
  "analysis \<Rightarrow> nat \<times> nat \<Rightarrow> image \<Rightarrow> bake_pass \<Rightarrow> bake_state \<Rightarrow> bake_state" where
  "fill_constant a resolution_key img ps st =
     (case (principled_node a, p_emission_input ps) of
        (Some pid, Some emission_input) \<Rightarrow>
          if emission_input = [] then st
          else
            (case get_node (tree st) pid of
               None \<Rightarrow> st
             | Some principled \<Rightarrow>
                 (case socket_index (inputs principled) emission_input of
                    None \<Rightarrow> st
                  | Some k \<Rightarrow>
                      if input_links (tree st) pid k \<noteq> [] then st
                      else
                        (case default_value (inputs principled ! k) of
                           NoValue \<Rightarrow> st
                         | FloatVal v \<Rightarrow> record_image resolution_key img (UniformColor v v v 1) st
                         | VectorVal x y z \<Rightarrow>
                             record_image resolution_key img (UniformColor x y z 1) st
                         | ColorVal r g b _ \<Rightarrow>
                             record_image resolution_key img (UniformColor r g b 1) st)))
      | _ \<Rightarrow> st)"

text \<open>
  The test \<open>emission_input and not is_lighting_basecolor\<close>, giving the input name for
  the single-input probe.
\<close>

definition probe_input :: "bake_pass \<Rightarrow> bool \<Rightarrow> string option" where
  "probe_input ps is_lighting_basecolor =
     (case p_emission_input ps of
        None \<Rightarrow> None
      | Some emission_input \<Rightarrow>
          if emission_input \<noteq> [] \<and> \<not> is_lighting_basecolor then Some emission_input else None)"

text \<open>
  The body of the loop over the passes for one resolution and one UDIM tile.
  \<open>bake_node.image = img\<close> raises \<open>ReferenceError\<close> when the bake node is no longer in
  the tree; this and the skip test are outside the inner \<open>try\<close>, so their exceptions
  leave the loop. Everything after them is inside a \<open>try\<close> that swallows exceptions:
  the image is then dropped and not saved. \<open>run_bake\<close> is the choice of the bake
  method inside that \<open>try\<close>.
\<close>

definition run_bake ::
  "settings \<Rightarrow> analysis \<Rightarrow> (bake_call \<Rightarrow> bool) \<Rightarrow> image \<Rightarrow> bake_pass
     \<Rightarrow> bake_state \<Rightarrow> bake_state \<times> py_error option" where
  "run_bake s a engine img ps st0 =
     (let is_lighting_basecolor = (p_suffix ps = ''BaseColor'' \<and> include_lighting s);
          is_custom_shader = (p_suffix ps = ''CustomShader'');
          bake = bake_generic engine (p_btype ps) False img;
          bake_lit = bake_generic engine (p_btype ps) True img
      in if is_custom_shader then bake_custom_shader s a bake st0
         else
           (case probe_input ps is_lighting_basecolor of
              Some emission_input \<Rightarrow>
                run_with (temporary_emission_input_enter emission_input 0)
                  temporary_emission_input_exit (\<lambda>_. bake) st0
            | None \<Rightarrow>
                if is_lighting_basecolor
                then bake_lighting_basecolor a bake_lit st0
                else bake st0))"

definition process_pass ::
  "settings \<Rightarrow> analysis \<Rightarrow> (bake_call \<Rightarrow> bool) \<Rightarrow> nat \<Rightarrow> nat \<times> nat \<Rightarrow> int \<Rightarrow> bake_pass
     \<Rightarrow> bake_state \<Rightarrow> bake_state \<times> py_error option" where
  "process_pass s a engine bake_node resolution_key udim_tile ps st =
     (let img = \<lparr>img_suffix = p_suffix ps, img_width = fst resolution_key,
                 img_height = snd resolution_key, img_tile = udim_tile\<rparr>
      in case get_node (tree st) bake_node of
           None \<Rightarrow> (st, Some ReferenceError)
         | Some _ \<Rightarrow>
             let st0 = st\<lparr>tree := set_image (tree st) bake_node\<rparr>
             in (case should_bake a (tree st0) ps of
                   Inl e \<Rightarrow> (st0, Some e)
                 | Inr True \<Rightarrow>
                     (case run_bake s a engine img ps st0 of
                        (st1, Some e) \<Rightarrow> (st1, None)
                      | (st1, None) \<Rightarrow>
                          (record_image resolution_key img
                             (if length (engine_calls st1) > length (engine_calls st0)
                              then EngineBaked else Unwritten) st1,
                           None))
                 | Inr False \<Rightarrow> (fill_constant a resolution_key img ps st0, None)))"

fun process_passes ::
  "(bake_pass \<Rightarrow> bake_state \<Rightarrow> bake_state \<times> py_error option) \<Rightarrow> bake_pass list
     \<Rightarrow> bake_state \<Rightarrow> bake_state \<times> py_error option" where
  "process_passes f [] st = (st, None)"
| "process_passes f (ps # pss) st =
     (case f ps st of
        (st1, Some e) \<Rightarrow> (st1, Some e)
      | (st1, None) \<Rightarrow> process_passes f pss st1)"

subsection \<open>One UDIM tile\<close>

text \<open>
  The prologue of the tile loop: \<open>normalize_udim_uvs_for_baking\<close> is called only when
  UDIM is enabled, more than one tile is processed, and the tile is not 1001.
\<close>

definition udim_tile_setup ::
  "bool \<Rightarrow> int list \<Rightarrow> int \<Rightarrow> uv_mesh \<Rightarrow> uv_mesh \<times> (nat \<times> (real \<times> real)) list" where
  "udim_tile_setup udim_enabled udim_tiles udim_tile m =
     (if udim_enabled \<and> length udim_tiles > 1 then
        (if udim_tile \<noteq> 1001 then normalize_udim_uvs_for_baking m udim_tile else (m, []))
      else (m, []))"

text \<open>
  One iteration of the tile loop around the loop over the passes (\<open>body\<close>): an
  exception of the body is reported and swallowed, and the \<open>finally\<close> block calls
  \<open>restore_udim_uvs\<close> when some coordinates were stored.
\<close>

definition process_tile ::
  "bool \<Rightarrow> int list \<Rightarrow> int \<Rightarrow> (bake_state \<Rightarrow> bake_state \<times> py_error option)
     \<Rightarrow> bake_state \<Rightarrow> bake_state" where
  "process_tile udim_enabled udim_tiles udim_tile body st =
     (case udim_tile_setup udim_enabled udim_tiles udim_tile (obj_mesh st) of
        (m1, original_uvs) \<Rightarrow>
          (case body (st\<lparr>obj_mesh := m1\<rparr>) of
             (st2, exc) \<Rightarrow>
               if original_uvs \<noteq> []
               then st2\<lparr>obj_mesh := restore_udim_uvs (obj_mesh st2) original_uvs\<rparr>
               else st2))"

subsection \<open>Rebuilding the node tree\<close>

text \<open>
  \<open>Rebuild material if requested\<close>: the tree is cleared and a principled network is
  built from the images of the primary resolution: an image node per baked channel in
  the order of \<open>node_order\<close>, a principled node and a sink, each image node connected
  to the principled input of its channel when that input exists (\<open>safe_connect\<close>), and
  the principled node connected to the sink. The Normal Map, AO mix and Displacement
  nodes that the source adds between some image nodes and their targets are left out.
\<close>

definition node_order :: "string list" where
  "node_order =
     [''BaseColor'', ''Roughness'', ''Metallic'', ''Normal'',
      ''Subsurface'', ''Transmission'', ''Emission'', ''Alpha'',
      ''Specular'', ''Clearcoat'', ''ClearcoatRoughness'', ''Sheen'',
      ''Displacement'', ''AO'']"

definition add_tex_node :: "string \<Rightarrow> node_tree \<times> (string \<times> nat) list \<Rightarrow> node_tree \<times> (string \<times> nat) list" where
  "add_tex_node key acc =
     (case nodes_new (fst acc) ''ShaderNodeTexImage'' of
        (nt1, tex) \<Rightarrow> (set_label (set_image nt1 tex) tex key, snd acc @ [(key, tex)]))"

definition safe_connect :: "node_tree \<Rightarrow> nat \<Rightarrow> string \<Rightarrow> nat \<Rightarrow> string \<Rightarrow> node_tree" where
  "safe_connect nt from_nd from_output to_nd to_input_name =
     (case (get_node nt from_nd, get_node nt to_nd) of
        (Some f, Some t) \<Rightarrow>
          (case (socket_index (outputs f) from_output, socket_index (inputs t) to_input_name) of
             (Some i, Some j) \<Rightarrow> links_new nt (from_nd, i) (to_nd, j)
           | _ \<Rightarrow> nt)
      | _ \<Rightarrow> nt)"

definition connected_channels :: "string list" where
  "connected_channels =
     [''BaseColor'', ''Roughness'', ''Metallic'', ''Subsurface'', ''Transmission'',
      ''Emission'', ''Alpha'', ''Specular'', ''Clearcoat'', ''ClearcoatRoughness'', ''Sheen'']"

definition rebuild_nodes ::
  "(string \<times> image) list \<Rightarrow> (string \<times> string) list \<Rightarrow> node_tree \<Rightarrow> node_tree" where
  "rebuild_nodes primary_baked_images input_mapping nt =
     (let (nt1, tex_nodes) =
            fold add_tex_node
              (filter (\<lambda>key. map_of primary_baked_images key \<noteq> None) node_order)
              (nodes_clear nt, []);
          (nt2, principled) = nodes_new nt1 ''ShaderNodeBsdfPrincipled'';
          nt3 = set_label nt2 principled ''Principled BSDF'';
          (nt4, output) = nodes_new nt3 ''ShaderNodeOutputMaterial'';
          nt5 = set_label nt4 output ''Material Output'';
          nt6 = fold (\<lambda>key t.
                        (case map_of tex_nodes key of
                           None \<Rightarrow> t
                         | Some tex \<Rightarrow>
                             safe_connect t tex ''Color'' principled
                               (case map_of input_mapping key of Some nm \<Rightarrow> nm | None \<Rightarrow> key)))
                  connected_channels nt5
      in safe_connect nt6 principled ''BSDF'' output ''Surface'')"

subsection \<open>One resolution, and the whole material\<close>

text \<open>
  One iteration of \<open>for res_idx, (width, height) in enumerate(resolutions)\<close>. The rebuild
  of the tree and the removal of the bake node are inside this loop body, after the loop
  over the tiles.
\<close>

definition remove_bake_node :: "nat \<Rightarrow> bake_state \<Rightarrow> bake_state" where
  "remove_bake_node bake_node st =
     (case get_node (tree st) bake_node of
        None \<Rightarrow> st
      | Some n \<Rightarrow>
          if bl_idname n = ''ShaderNodeTexImage''
          then st\<lparr>tree := nodes_remove (tree st) bake_node\<rparr> else st)"

definition rebuild_if_requested ::
  "settings \<Rightarrow> (string \<times> string) list \<Rightarrow> nat \<times> nat \<Rightarrow> bake_state \<Rightarrow> bake_state" where
  "rebuild_if_requested s input_mapping primary_resolution st =
     (let primary_baked_images =
            (case map_of (all_baked_images st) primary_resolution of
               None \<Rightarrow> []
             | Some d \<Rightarrow> d)
      in if replace_nodes s \<and> primary_baked_images \<noteq> []
         then st\<lparr>tree := rebuild_nodes primary_baked_images input_mapping (tree st),
                 rebuilds := rebuilds st @ [(primary_resolution, map fst primary_baked_images)]\<rparr>
         else st)"

definition process_resolution ::
  "settings \<Rightarrow> analysis \<Rightarrow> (bake_call \<Rightarrow> bool) \<Rightarrow> nat \<Rightarrow> bake_pass list \<Rightarrow> nat \<times> nat
     \<Rightarrow> int list \<Rightarrow> (string \<times> string) list \<Rightarrow> nat \<times> nat \<Rightarrow> bake_state \<Rightarrow> bake_state" where
  "process_resolution s a engine bake_node passes primary_resolution udim_tiles input_mapping
       resolution_key st =
     (let st1 = (if map_of (all_baked_images st) resolution_key = None
                 then st\<lparr>all_baked_images := all_baked_images st @ [(resolution_key, [])]\<rparr>
                 else st);
          st2 = fold (\<lambda>udim_tile.
                        process_tile (enable_udim s) udim_tiles udim_tile
                          (process_passes
                             (process_pass s a engine bake_node resolution_key udim_tile) passes))
                  udim_tiles st1;
          st3 = rebuild_if_requested s input_mapping primary_resolution st2
      in remove_bake_node bake_node st3)"

text \<open>
  \<open>max(resolutions, key=lambda x: x[0] * x[1])\<close>: the first resolution of largest area;
  \<open>ValueError\<close> on the empty list.
\<close>

fun max_area_from :: "nat \<times> nat \<Rightarrow> (nat \<times> nat) list \<Rightarrow> nat \<times> nat" where
  "max_area_from best [] = best"
| "max_area_from best (r # rs) =
     (if fst best * snd best < fst r * snd r then max_area_from r rs else max_area_from best rs)"

definition primary_resolution_of :: "(nat \<times> nat) list \<Rightarrow> py_error + nat \<times> nat" where
  "primary_resolution_of resolutions =
     (case resolutions of [] \<Rightarrow> Inl ValueError | r # rs \<Rightarrow> Inr (max_area_from r rs))"

text \<open>
  The list of resolutions of a multi-resolution run: duplicates dropped, first
  occurrences kept, sorted by area (\<open>sorted\<close> is stable).
\<close>

definition order_resolutions :: "(nat \<times> nat) list \<Rightarrow> (nat \<times> nat) list" where
  "order_resolutions all_resolutions =
     sort_key (\<lambda>r. fst r * snd r) (rev (remdups (rev all_resolutions)))"

text \<open>
  The body of the loop over the material slots in \<open>execute\<close>, for one material with a
  node tree: analysis, creation of the bake node, pass list, and the loop over the
  resolutions. \<open>available_inputs\<close> are the input names of the host's principled node.
\<close>

definition bake_material ::
  "settings \<Rightarrow> (bake_call \<Rightarrow> bool) \<Rightarrow> string list \<Rightarrow> (nat \<times> nat) list \<Rightarrow> int list
     \<Rightarrow> bake_state \<Rightarrow> py_error + bake_state" where
  "bake_material s engine available_inputs resolutions udim_tiles st =
     (let a = analyze_material (Some \<lparr>use_nodes = True, node_tree = Some (tree st)\<rparr>);
          (nt1, bake_node) = nodes_new (tree st) ''ShaderNodeTexImage'';
          st1 = st\<lparr>tree := nt1, all_baked_images := []\<rparr>
      in case primary_resolution_of resolutions of
           Inl e \<Rightarrow> Inl e
         | Inr primary_resolution \<Rightarrow>
             let input_mapping = create_input_mapping available_inputs
             in (case (if include_custom_shader s then custom_shader_requested nt1 a
                       else Inr False) of
                   Inl e \<Rightarrow> Inl e
                 | Inr custom_linked \<Rightarrow>
                     Inr (fold (process_resolution s a engine bake_node
                                  (build_passes s a input_mapping custom_linked)
                                  primary_resolution udim_tiles input_mapping)
                            resolutions st1)))"

subsection \<open>What the bake operator is shown\<close>

text \<open>
  The sink shows a constant \<open>v\<close>: its \<open>Surface\<close> input has exactly one link, which comes
  from the first output of an Emission node, and the \<open>Color\<close> input of that node has
  exactly one link, which comes from the first output of an RGB node whose colour is
  \<open>(v, v, v, 1)\<close>. This is the wiring that \<open>temporary_emission_input\<close> is meant to set
  up for an unlinked float input.
\<close>

definition surface_shows_constant :: "node_tree \<Rightarrow> real \<Rightarrow> bool" where
  "surface_shows_constant nt v =
     (case find_node nt ''ShaderNodeOutputMaterial'' of
        None \<Rightarrow> False
      | Some out \<Rightarrow>
          (case socket_index (inputs out) ''Surface'' of
             None \<Rightarrow> False
           | Some si \<Rightarrow>
               (case input_links nt (node_id out) si of
                  [l] \<Rightarrow>
                    (case get_node nt (from_node l) of
                       None \<Rightarrow> False
                     | Some emit \<Rightarrow>
                         bl_idname emit = ''ShaderNodeEmission'' \<and> from_socket l = 0
                         \<and> (case socket_index (inputs emit) ''Color'' of
                              None \<Rightarrow> False
                            | Some ci \<Rightarrow>
                                (case input_links nt (node_id emit) ci of
                                   [l2] \<Rightarrow>
                                     (case get_node nt (from_node l2) of
                                        None \<Rightarrow> False
                                      | Some rgb \<Rightarrow>
                                          bl_idname rgb = ''ShaderNodeRGB'' \<and> from_socket l2 = 0
                                          \<and> map default_value (outputs rgb) = [ColorVal v v v 1])
                                 | _ \<Rightarrow> False)))
                | _ \<Rightarrow> False)))"

section \<open>Example inputs\<close>

text \<open>Concrete trees, states and settings on which the functions above are evaluated.\<close>

definition mk_node :: "nat \<Rightarrow> string \<Rightarrow> node" where
  "mk_node i idname =
     \<lparr>node_id = i, bl_idname = idname, node_name = idname, label = [], has_image = False,
      inputs = fst (new_node_sockets idname), outputs = snd (new_node_sockets idname)\<rparr>"

definition mk_link :: "nat \<Rightarrow> nat \<Rightarrow> nat \<Rightarrow> nat \<Rightarrow> link" where
  "mk_link a i b j = \<lparr>from_node = a, from_socket = i, to_node = b, to_socket = j\<rparr>"

definition new_state :: "node_tree \<Rightarrow> uv_mesh \<Rightarrow> bake_state" where
  "new_state nt m =
     \<lparr>tree = nt, obj_mesh = m, engine_calls = [], saved = [], all_baked_images = [],
      rebuilds = []\<rparr>"

definition empty_mesh :: uv_mesh where
  "empty_mesh = \<lparr>faces = [], has_uv_layer = True\<rparr>"

definition no_channels :: settings where
  "no_channels =
     \<lparr>include_basecolor = False, include_roughness = False, include_metallic = False,
      include_normal = False, include_subsurface = False, include_transmission = False,
      include_emission = False, include_alpha = False, include_specular = False,
      include_clearcoat = False, include_clearcoat_roughness = False, include_sheen = False,
      include_displacement = False, include_ambient_occlusion = False,
      include_custom_shader = False, include_lighting = False, replace_nodes = False,
      enable_udim = False, mixed_shader_strategy = ''SURFACE_OUTPUT''\<rparr>"

text \<open>A principled node with a metallic value of 1 and no sink.\<close>

definition lone_principled_tree :: node_tree where
  "lone_principled_tree =
     \<lparr>nodes = [(mk_node 0 ''ShaderNodeBsdfPrincipled'')
                 \<lparr>inputs := [\<lparr>sock_name = ''Base Color'',
                               default_value = ColorVal (8/10) (8/10) (8/10) 1\<rparr>,
                             \<lparr>sock_name = ''Metallic'', default_value = FloatVal 1\<rparr>,
                             \<lparr>sock_name = ''Roughness'', default_value = FloatVal (1/2)\<rparr>]\<rparr>],
      links = [], next_id = 1\<rparr>"

text \<open>A sink with nothing linked to it, and an image node beside it.\<close>

definition lone_sink_tree :: node_tree where
  "lone_sink_tree =
     \<lparr>nodes = [mk_node 0 ''ShaderNodeOutputMaterial'', mk_node 1 ''ShaderNodeTexImage''],
      links = [], next_id = 2\<rparr>"

text \<open>
  sink \<open>\<leftarrow>\<close> Mix Shader \<open>\<leftarrow>\<close> (principled, Emission): the Mix Shader has the inputs
  \<open>Fac\<close>, \<open>Shader\<close>, \<open>Shader\<close>.
\<close>

definition mixed_network_tree :: node_tree where
  "mixed_network_tree =
     \<lparr>nodes =
        [mk_node 0 ''ShaderNodeOutputMaterial'',
         (mk_node 1 ''ShaderNodeMixShader'')
           \<lparr>inputs := [\<lparr>sock_name = ''Fac'', default_value = FloatVal (1/2)\<rparr>,
                       \<lparr>sock_name = ''Shader'', default_value = NoValue\<rparr>,
                       \<lparr>sock_name = ''Shader'', default_value = NoValue\<rparr>],
            outputs := [\<lparr>sock_name = ''Shader'', default_value = NoValue\<rparr>]\<rparr>,
         mk_node 2 ''ShaderNodeBsdfPrincipled'',
         mk_node 3 ''ShaderNodeEmission''],
      links = [mk_link 2 0 1 1, mk_link 3 0 1 2, mk_link 1 0 0 0],
      next_id = 4\<rparr>"

text \<open>
  sink \<open>\<leftarrow>\<close> Mix Shader \<open>\<leftarrow>\<close> (principled, node group): as before, with a group node
  of the host in the place of the Emission node.
\<close>

definition group_network_tree :: node_tree where
  "group_network_tree =
     \<lparr>nodes =
        [mk_node 0 ''ShaderNodeOutputMaterial'',
         (mk_node 1 ''ShaderNodeMixShader'')
           \<lparr>inputs := [\<lparr>sock_name = ''Fac'', default_value = FloatVal (1/2)\<rparr>,
                       \<lparr>sock_name = ''Shader'', default_value = NoValue\<rparr>,
                       \<lparr>sock_name = ''Shader'', default_value = NoValue\<rparr>],
            outputs := [\<lparr>sock_name = ''Shader'', default_value = NoValue\<rparr>]\<rparr>,
         mk_node 2 ''ShaderNodeBsdfPrincipled'',
         (mk_node 3 ''ShaderNodeGroup'')
           \<lparr>outputs := [\<lparr>sock_name = ''Shader'', default_value = NoValue\<rparr>]\<rparr>],
      links = [mk_link 2 0 1 1, mk_link 3 0 1 2, mk_link 1 0 0 0],
      next_id = 4\<rparr>"

text \<open>A sink with nothing linked to it, and a group node of the host beside it.\<close>

definition lone_group_tree :: node_tree where
  "lone_group_tree =
     \<lparr>nodes = [mk_node 0 ''ShaderNodeOutputMaterial'',
               (mk_node 1 ''ShaderNodeGroup'')
                 \<lparr>outputs := [\<lparr>sock_name = ''Shader'', default_value = NoValue\<rparr>]\<rparr>],
      links = [], next_id = 2\<rparr>"

text \<open>
  A principled node that feeds two sinks (one per render target); the link to the second
  sink was made first.
\<close>

definition fanout_tree :: node_tree where
  "fanout_tree =
     \<lparr>nodes = [mk_node 0 ''ShaderNodeOutputMaterial'', mk_node 1 ''ShaderNodeBsdfPrincipled'',
               mk_node 2 ''ShaderNodeOutputMaterial''],
      links = [mk_link 1 0 2 0, mk_link 1 0 0 0],
      next_id = 3\<rparr>"

text \<open>sink \<open>\<leftarrow>\<close> principled \<open>\<leftarrow>\<close> image texture on the base colour.\<close>

definition textured_tree :: node_tree where
  "textured_tree =
     \<lparr>nodes = [mk_node 0 ''ShaderNodeOutputMaterial'', mk_node 1 ''ShaderNodeBsdfPrincipled'',
               (mk_node 2 ''ShaderNodeTexImage'')\<lparr>has_image := True\<rparr>],
      links = [mk_link 2 0 1 0, mk_link 1 0 0 0],
      next_id = 3\<rparr>"

text \<open>
  sink \<open>\<leftarrow>\<close> principled with constants only: a red base colour, metallic 0, roughness
  0.5 and specular 0.8.
\<close>

definition constant_tree :: node_tree where
  "constant_tree =
     \<lparr>nodes =
        [mk_node 0 ''ShaderNodeOutputMaterial'',
         (mk_node 1 ''ShaderNodeBsdfPrincipled'')
           \<lparr>inputs := [\<lparr>sock_name = ''Base Color'', default_value = ColorVal 1 0 0 1\<rparr>,
                       \<lparr>sock_name = ''Metallic'', default_value = FloatVal 0\<rparr>,
                       \<lparr>sock_name = ''Roughness'', default_value = FloatVal (1/2)\<rparr>,
                       \<lparr>sock_name = ''Specular'', default_value = FloatVal (8/10)\<rparr>]\<rparr>],
      links = [mk_link 1 0 0 0],
      next_id = 2\<rparr>"

definition host_inputs :: "string list" where
  "host_inputs = [''Base Color'', ''Metallic'', ''Roughness'', ''Specular'']"

text \<open>A mesh of one triangle that lies in tile 1002.\<close>

definition tile_1002_mesh :: uv_mesh where
  "tile_1002_mesh =
     \<lparr>faces = [[\<lparr>loop_index = 0, loop_uv = (5/4, 1/4)\<rparr>,
                 \<lparr>loop_index = 1, loop_uv = (7/4, 1/4)\<rparr>,
                 \<lparr>loop_index = 2, loop_uv = (3/2, 3/4)\<rparr>]],
      has_uv_layer = True\<rparr>"

text \<open>
  The state once the bake node has been added to the tree (\<open>bake_node =
  nt.nodes.new("ShaderNodeTexImage")\<close>), and the settings of the examples.
\<close>

definition with_bake_node :: "bake_state \<Rightarrow> bake_state" where
  "with_bake_node st = st\<lparr>tree := fst (nodes_new (tree st) ''ShaderNodeTexImage'')\<rparr>"

definition constant_settings :: settings where
  "constant_settings =
     no_channels\<lparr>include_roughness := True, include_metallic := True, include_specular := True\<rparr>"

definition two_channel_settings :: settings where
  "two_channel_settings =
     no_channels\<lparr>include_basecolor := True, include_normal := True, replace_nodes := True\<rparr>"

definition mk_image :: "string \<Rightarrow> nat \<Rightarrow> image" where
  "mk_image suffix n = \<lparr>img_suffix = suffix, img_width = n, img_height = n, img_tile = 1001\<rparr>"

text \<open>Two states that differ at most in the UV coordinates of the mesh.\<close>

definition same_but_mesh :: "bake_state \<Rightarrow> bake_state \<Rightarrow> bool" where
  "same_but_mesh st st' =
     (tree st' = tree st \<and> engine_calls st' = engine_calls st \<and> saved st' = saved st
      \<and> all_baked_images st' = all_baked_images st \<and> rebuilds st' = rebuilds st)"

text \<open>
  The analysis of \<open>textured_tree\<close>, the two passes of \<open>two_channel_settings\<close>, and
  the state in which the loop over the resolutions starts.
\<close>

definition c3_analysis :: analysis where
  "c3_analysis =
     \<lparr>has_image_textures = True, has_pure_colors = False, texture_nodes = [2],
      principled_node = Some 1, material_type = ''textured'',
      custom_shaders = [], output_node = Some 0, has_custom_shaders = False,
      mix_shaders = [], shader_network = None,
      principled_connected_to_output = True, custom_connected_to_output = False,
      pure_color_inputs = Some [], connected_inputs = Some [''Base Color'']\<rparr>"

definition c3_passes :: "bake_pass list" where
  "c3_passes = [mk_pass ''BaseColor'' ''EMIT'' True (Some ''Base Color''),
                mk_pass ''Normal'' ''NORMAL'' False None]"


definition c3_state1 :: bake_state where
  "c3_state1 = (new_state textured_tree empty_mesh)
      \<lparr>tree := fst (nodes_new textured_tree ''ShaderNodeTexImage''), all_baked_images := []\<rparr>"



section \<open>Properties of the UDIM and atlas arithmetic\<close>

lemma udim_number_of_coords:
  "udim_number_of (fst (udim_tile_coords n)) (snd (udim_tile_coords n)) = n"
  by (simp add: udim_tile_coords_def udim_number_of_def get_udim_tile_bounds_def Let_def)

lemma udim_coords_range:
  "1001 \<le> n \<Longrightarrow> n \<le> 1100 \<Longrightarrow>
     fst (udim_tile_coords n) \<in> {0..9} \<and> snd (udim_tile_coords n) \<in> {0..9}"
  unfolding udim_tile_coords_def get_udim_tile_bounds_def Let_def
  by simp presburger

lemma udim_coords_of_number:
  "0 \<le> a \<Longrightarrow> a \<le> 9 \<Longrightarrow> 0 \<le> b \<Longrightarrow> b \<le> 9 \<Longrightarrow>
     udim_tile_coords (udim_number_of a b) = (a, b)"
  unfolding udim_tile_coords_def get_udim_tile_bounds_def Let_def udim_number_of_def
  by simp

lemma udim_coords_bij: "bij_betw udim_tile_coords {1001..1100} ({0..9} \<times> {0..9})"
proof -
  have i: "inj_on udim_tile_coords {1001..1100}"
    by (rule inj_on_inverseI [where g = "\<lambda>p. udim_number_of (fst p) (snd p)"])
       (simp add: udim_number_of_coords)
  have img: "udim_tile_coords ` {1001..1100} = {0..9} \<times> {0..9}"
  proof (rule set_eqI, rule iffI)
    fix p assume "p \<in> udim_tile_coords ` {1001..1100}"
    then obtain n where "p = udim_tile_coords n" "1001 \<le> n" "n \<le> 1100" by auto
    then show "p \<in> {0..9} \<times> {0..9}" using udim_coords_range [of n] by (simp add: mem_Times_iff)
  next
    fix p :: "int \<times> int" assume p: "p \<in> {0..9} \<times> {0..9}"
    obtain a b where ab: "p = (a, b)" by (cases p)
    from p ab have r: "0 \<le> a" "a \<le> 9" "0 \<le> b" "b \<le> 9" by auto
    have "udim_tile_coords (udim_number_of a b) = (a, b)"
      using r by (rule udim_coords_of_number)
    moreover have "udim_number_of a b \<in> {1001..1100}"
      using r by (simp add: udim_number_of_def)
    ultimately show "p \<in> udim_tile_coords ` {1001..1100}" using ab by (metis imageI)
  qed
  show ?thesis using i img by (simp add: bij_betw_def)
qed

text \<open>
  Claim C6. For every tile id \<open>n\<close> in 1001..1100, the tile coordinates computed by
  \<open>get_udim_tile_bounds\<close> (\<open>tile_u = (n - 1001) mod 10\<close>, \<open>tile_v = (n - 1001) div 10\<close>)
  lie in 0..9, the formula of \<open>detect_udim_tiles\<close> applied to them gives \<open>n\<close> back, and
  the map from ids to coordinates is a bijection between 1001..1100 and the 10 by 10 grid.
\<close>

theorem udim_tile_roundtrip:
  assumes "1001 \<le> n" and "n \<le> 1100"
  shows "tile_u (get_udim_tile_bounds n) = (n - 1001) mod 10
     \<and> tile_v (get_udim_tile_bounds n) = (n - 1001) div 10
     \<and> tile_u (get_udim_tile_bounds n) \<in> {0..9}
     \<and> tile_v (get_udim_tile_bounds n) \<in> {0..9}
     \<and> udim_number_of (tile_u (get_udim_tile_bounds n)) (tile_v (get_udim_tile_bounds n)) = n
     \<and> bij_betw udim_tile_coords {1001..1100} ({0..9} \<times> {0..9})"
proof -
  have "tile_u (get_udim_tile_bounds n) = (n - 1001) mod 10"
    and "tile_v (get_udim_tile_bounds n) = (n - 1001) div 10"
    by (simp_all add: get_udim_tile_bounds_def Let_def)
  moreover have "tile_u (get_udim_tile_bounds n) \<in> {0..9}"
    and "tile_v (get_udim_tile_bounds n) \<in> {0..9}"
    using udim_coords_range [OF assms] by (simp_all add: udim_tile_coords_def)
  moreover have
    "udim_number_of (tile_u (get_udim_tile_bounds n)) (tile_v (get_udim_tile_bounds n)) = n"
    using udim_number_of_coords [of n] by (simp add: udim_tile_coords_def)
  ultimately show ?thesis using udim_coords_bij by simp
qed

theorem udim_tile_roundtrip_witness:
  "(1001::int) \<le> 1042 \<and> (1042::int) \<le> 1100
     \<and> tile_u (get_udim_tile_bounds 1042) = 1 \<and> tile_v (get_udim_tile_bounds 1042) = 4
     \<and> udim_number_of 1 4 = 1042"
proof -
  have h: "(1001::int) \<le> 1042" "(1042::int) \<le> 1100" by simp_all
  from udim_tile_roundtrip [OF h] show ?thesis by (simp add: udim_number_of_def)
qed

lemma ceil_sqrt_from_spec:
  "k = 0 \<or> (k - 1) * (k - 1) < n \<Longrightarrow>
   n \<le> ceil_sqrt_from n k * ceil_sqrt_from n k
   \<and> (ceil_sqrt_from n k = 0 \<or> (ceil_sqrt_from n k - 1) * (ceil_sqrt_from n k - 1) < n)"
proof (induction n k rule: ceil_sqrt_from.induct)
  case (1 n k)
  show ?case
  proof (cases "n \<le> k * k")
    case True
    then have "ceil_sqrt_from n k = k" by (subst ceil_sqrt_from.simps) simp
    then show ?thesis using "1.prems" True by simp
  next
    case False
    then have "Suc k = 0 \<or> (Suc k - 1) * (Suc k - 1) < n" by simp
    moreover have "ceil_sqrt_from n k = ceil_sqrt_from n (Suc k)"
      using False by (subst ceil_sqrt_from.simps) simp
    ultimately show ?thesis using "1.IH" [OF False] by simp
  qed
qed

lemma ceil_sqrt_ceiling:
  assumes "0 \<le> n"
  shows "ceil_sqrt n = \<lceil>sqrt (of_int n)\<rceil>"
proof -
  define m where "m = nat n"
  define r where "r = ceil_sqrt_from m 0"
  have s: "m \<le> r * r" "r = 0 \<or> (r - 1) * (r - 1) < m"
    using ceil_sqrt_from_spec [of 0 m] by (simp_all add: r_def)
  have up: "sqrt (real m) \<le> real r"
  proof (rule real_le_lsqrt)
    show "real m \<le> (real r)\<^sup>2" using s(1) by (metis of_nat_le_iff of_nat_mult power2_eq_square)
  qed simp
  have lo: "real r - 1 < sqrt (real m)"
  proof (cases "r = 0")
    case True
    have "(0::real) \<le> sqrt (real m)" by simp
    then have "- 1 < sqrt (real m)" by linarith
    then show ?thesis using True by simp
  next
    case False
    then have lt: "(r - 1) * (r - 1) < m" using s(2) by simp
    have "real (r - 1) < sqrt (real m)"
    proof (rule real_less_rsqrt)
      show "(real (r - 1))\<^sup>2 < real m" using lt by (metis of_nat_less_iff of_nat_mult power2_eq_square)
    qed
    then show ?thesis using False by (simp add: of_nat_diff)
  qed
  have "\<lceil>sqrt (real m)\<rceil> = int r"
    by (rule ceiling_unique) (use lo up in simp_all)
  moreover have "real m = of_int n" using assms by (simp add: m_def)
  ultimately show ?thesis by (simp add: ceil_sqrt_def r_def m_def)
qed

lemma layout_facts:
  assumes "1 \<le> N" "N \<le> 32" "calculate_atlas_layout N = (cols, rows)"
  shows "1 \<le> cols \<and> 1 \<le> rows \<and> N \<le> cols * rows"
proof -
  have cs: "17 \<le> N \<Longrightarrow> N \<le> 25 \<Longrightarrow> ceil_sqrt N = 5" 
  proof -
    assume a: "17 \<le> N" "N \<le> 25"
    have "\<lceil>sqrt (of_int N)\<rceil> = 5"
    proof (rule ceiling_unique)
      have "(4::real) < sqrt (of_int N)" by (rule real_less_rsqrt) (use a in simp)
      then show "of_int 5 - 1 < sqrt (real_of_int N)" by simp
      have "sqrt (of_int N) \<le> 5" by (rule real_le_lsqrt) (use a in simp_all)
      then show "sqrt (real_of_int N) \<le> of_int 5" by simp
    qed
    then show ?thesis using a by (simp add: ceil_sqrt_ceiling)
  qed
  have cs2: "26 \<le> N \<Longrightarrow> N \<le> 32 \<Longrightarrow> ceil_sqrt N = 6" 
  proof -
    assume a: "26 \<le> N" "N \<le> 32"
    have "\<lceil>sqrt (of_int N)\<rceil> = 6"
    proof (rule ceiling_unique)
      have "(5::real) < sqrt (of_int N)" by (rule real_less_rsqrt) (use a in simp)
      then show "of_int 6 - 1 < sqrt (real_of_int N)" by simp
      have "sqrt (of_int N) \<le> 6" by (rule real_le_lsqrt) (use a in simp_all)
      then show "sqrt (real_of_int N) \<le> of_int 6" by simp
    qed
    then show ?thesis using a by (simp add: ceil_sqrt_ceiling)
  qed
  consider "N \<le> 16" | "17 \<le> N" "N \<le> 25" | "26 \<le> N" "N \<le> 32" using assms by linarith
  then show ?thesis
  proof cases
    case 1
    then show ?thesis using assms by (auto simp: calculate_atlas_layout_def split: if_splits)
  next
    case 2
    then show ?thesis using assms cs by (auto simp: calculate_atlas_layout_def split: if_splits)
  next
    case 3
    then show ?thesis using assms cs2 by (auto simp: calculate_atlas_layout_def split: if_splits)
  qed
qed
lemma atlas_bounds_closed_form:
  assumes "cols \<noteq> 0" "rows \<noteq> 0"
  shows "get_atlas_uv_bounds i cols rows p =
     Inr ((of_int (i mod cols) + p) / of_int cols,
          (of_int (i div cols) + p) / of_int rows,
          (of_int (i mod cols) + 1 - p) / of_int cols,
          (of_int (i div cols) + 1 - p) / of_int rows)"
  using assms
  by (simp add: get_atlas_uv_bounds_def Let_def add_divide_distrib diff_divide_distrib)

lemma cell_in_unit:
  fixes c :: int and n :: int and p :: real
  assumes "0 \<le> c" "c < n" "0 \<le> p" "p < 1 / 10"
  shows "0 \<le> (of_int c + p) / of_int n"
    and "(of_int c + p) / of_int n < (of_int c + 1 - p) / of_int n"
    and "(of_int c + 1 - p) / of_int n \<le> 1"
proof -
  have n: "(0::real) < of_int n" using assms by simp
  have c1: "real_of_int c + 1 \<le> of_int n" using assms(2) by linarith
  show "0 \<le> (of_int c + p) / of_int n" using assms n by simp
  show "(of_int c + p) / of_int n < (of_int c + 1 - p) / of_int n"
    using assms n by (simp add: divide_strict_right_mono)
  show "(of_int c + 1 - p) / of_int n \<le> 1"
    using assms n c1 by simp
qed

lemma cells_apart:
  fixes c d :: int and n :: int and p :: real
  assumes "c < d" "0 < n" "0 \<le> p"
  shows "(of_int c + 1 - p) / of_int n \<le> (of_int d + p) / of_int n"
proof -
  have "real_of_int c + 1 \<le> of_int d" using assms(1) by linarith
  then have "of_int c + 1 - p \<le> of_int d + p" using assms(3) by linarith
  then show ?thesis using assms(2) by (simp add: divide_right_mono)
qed

lemma row_lt:
  fixes i :: int
  assumes "0 \<le> i" "i < N" "N \<le> cols * rows" "0 < cols"
  shows "0 \<le> i div cols \<and> i div cols < rows"
proof -
  have "i < rows * cols" using assms by (simp add: mult.commute)
  have "i div cols < rows"
  proof (rule ccontr)
    assume "\<not> i div cols < rows"
    then have "rows * cols \<le> (i div cols) * cols"
      using assms(4) by (simp add: mult_right_mono)
    moreover have "(i div cols) * cols + i mod cols = i" by simp
    moreover have "0 \<le> i mod cols" using assms(4) by simp
    ultimately show False using \<open>i < rows * cols\<close> by linarith
  qed
  moreover have "0 \<le> i div cols" using assms by (simp add: pos_imp_zdiv_nonneg_iff)
  ultimately show ?thesis by simp
qed

lemma index_split:
  fixes i j :: int
  assumes "i \<noteq> j"
  shows "i mod cols \<noteq> j mod cols \<or> i div cols \<noteq> j div cols"
  using assms by (metis div_mult_mod_eq)

text \<open>
  Claim C7. For every material count \<open>N\<close> in 1..32 and every padding in \<open>[0, 0.1)\<close>, the
  layout \<open>(cols, rows)\<close> of \<open>calculate_atlas_layout\<close> has \<open>cols * rows \<ge> N\<close>, every
  index below \<open>N\<close> gets a rectangle from \<open>get_atlas_uv_bounds\<close> that lies in the unit
  square, and the rectangles of two different indices do not overlap.
\<close>

theorem atlas_cells_disjoint:
  assumes N: "1 \<le> N" "N \<le> 32"
    and p: "0 \<le> padding" "padding < 1 / 10"
    and lay: "calculate_atlas_layout N = (cols, rows)"
  shows "N \<le> cols * rows
    \<and> (\<forall>i. 0 \<le> i \<and> i < N \<longrightarrow>
          (\<exists>r. get_atlas_uv_bounds i cols rows padding = Inr r \<and> rect_in_unit_square r))
    \<and> (\<forall>i j r s. 0 \<le> i \<and> i < N \<and> 0 \<le> j \<and> j < N \<and> i \<noteq> j
          \<and> get_atlas_uv_bounds i cols rows padding = Inr r
          \<and> get_atlas_uv_bounds j cols rows padding = Inr s
          \<longrightarrow> \<not> rect_overlap r s)"
proof -
  have lf: "1 \<le> cols" "1 \<le> rows" "N \<le> cols * rows"
    using layout_facts [OF N lay] by simp_all
  then have nz: "cols \<noteq> 0" "rows \<noteq> 0" "0 < cols" "0 < rows" by simp_all
  note cf = atlas_bounds_closed_form [OF nz(1) nz(2)]
  have cr: "\<And>i. 0 \<le> i \<Longrightarrow> i < N \<Longrightarrow>
       0 \<le> i mod cols \<and> i mod cols < cols \<and> 0 \<le> i div cols \<and> i div cols < rows"
    using row_lt [OF _ _ lf(3) nz(3)] nz(3) by simp
  have unit: "\<And>i. 0 \<le> i \<Longrightarrow> i < N \<Longrightarrow>
       \<exists>r. get_atlas_uv_bounds i cols rows padding = Inr r \<and> rect_in_unit_square r"
  proof -
    fix i :: int assume i: "0 \<le> i" "i < N"
    from cr [OF i] have c: "0 \<le> i mod cols" "i mod cols < cols"
      and r: "0 \<le> i div cols" "i div cols < rows" by simp_all
    show "\<exists>r. get_atlas_uv_bounds i cols rows padding = Inr r \<and> rect_in_unit_square r"
      using cell_in_unit [OF c p] cell_in_unit [OF r p]
      by (simp add: cf rect_in_unit_square_def)
  qed
  have apart: "\<And>i j r s. 0 \<le> i \<Longrightarrow> i < N \<Longrightarrow> 0 \<le> j \<Longrightarrow> j < N \<Longrightarrow> i \<noteq> j \<Longrightarrow>
       get_atlas_uv_bounds i cols rows padding = Inr r \<Longrightarrow>
       get_atlas_uv_bounds j cols rows padding = Inr s \<Longrightarrow> \<not> rect_overlap r s"
  proof -
    fix i j :: int and r s :: rect
    assume ij: "i \<noteq> j"
      and ri: "get_atlas_uv_bounds i cols rows padding = Inr r"
      and sj: "get_atlas_uv_bounds j cols rows padding = Inr s"
    have r: "r = ((of_int (i mod cols) + padding) / of_int cols,
          (of_int (i div cols) + padding) / of_int rows,
          (of_int (i mod cols) + 1 - padding) / of_int cols,
          (of_int (i div cols) + 1 - padding) / of_int rows)" using ri cf by simp
    have s: "s = ((of_int (j mod cols) + padding) / of_int cols,
          (of_int (j div cols) + padding) / of_int rows,
          (of_int (j mod cols) + 1 - padding) / of_int cols,
          (of_int (j div cols) + 1 - padding) / of_int rows)" using sj cf by simp
    from index_split [OF ij, of cols]
    consider "i mod cols < j mod cols" | "j mod cols < i mod cols"
      | "i div cols < j div cols" | "j div cols < i div cols" by linarith
    then show "\<not> rect_overlap r s"
    proof cases
      case 1
      from cells_apart [OF 1 nz(3) p(1)] show ?thesis by (simp add: r s rect_overlap_def)
    next
      case 2
      from cells_apart [OF 2 nz(3) p(1)] show ?thesis by (simp add: r s rect_overlap_def)
    next
      case 3
      from cells_apart [OF 3 nz(4) p(1)] show ?thesis by (simp add: r s rect_overlap_def)
    next
      case 4
      from cells_apart [OF 4 nz(4) p(1)] show ?thesis by (simp add: r s rect_overlap_def)
    qed
  qed
  show ?thesis using lf(3) unit apart by blast
qed

theorem atlas_cells_disjoint_witness:
  "(1::int) \<le> 17 \<and> (17::int) \<le> 32 \<and> (0::real) \<le> 2 / 100 \<and> (2::real) / 100 < 1 / 10
   \<and> calculate_atlas_layout 17 = (5, 5)
   \<and> (17::int) \<le> 5 * 5
   \<and> (\<exists>r. get_atlas_uv_bounds 16 5 5 (2 / 100) = Inr r \<and> rect_in_unit_square r)
   \<and> \<not> rect_overlap (51 / 250, 151 / 250, 99 / 250, 199 / 250) (1 / 250, 1 / 250, 49 / 250, 49 / 250)"
proof -
  have l: "calculate_atlas_layout 17 = (5, 5)" by code_simp
  have a: "get_atlas_uv_bounds 16 5 5 (2 / 100) = Inr (51 / 250, 151 / 250, 99 / 250, 199 / 250)"
    by (simp add: get_atlas_uv_bounds_def Let_def)
  have b: "get_atlas_uv_bounds 0 5 5 (2 / 100) = Inr (1 / 250, 1 / 250, 49 / 250, 49 / 250)"
    by (simp add: get_atlas_uv_bounds_def Let_def)
  have h: "(1::int) \<le> 17" "(17::int) \<le> 32" "(0::real) \<le> 2 / 100" "(2::real) / 100 < 1 / 10"
    by simp_all
  note t = atlas_cells_disjoint [OF h l]
  from t have u: "\<exists>r. get_atlas_uv_bounds 16 5 5 (2 / 100) = Inr r \<and> rect_in_unit_square r"
    by simp
  from t have "0 \<le> (16::int) \<and> (16::int) < 17 \<and> 0 \<le> (0::int) \<and> (0::int) < 17 \<and> (16::int) \<noteq> 0
      \<and> get_atlas_uv_bounds 16 5 5 (2 / 100) = Inr (51 / 250, 151 / 250, 99 / 250, 199 / 250)
      \<and> get_atlas_uv_bounds 0 5 5 (2 / 100) = Inr (1 / 250, 1 / 250, 49 / 250, 49 / 250)
      \<longrightarrow> \<not> rect_overlap (51 / 250, 151 / 250, 99 / 250, 199 / 250) (1 / 250, 1 / 250, 49 / 250, 49 / 250)"
    by blast
  then have v: "\<not> rect_overlap (51 / 250, 151 / 250, 99 / 250, 199 / 250) (1 / 250, 1 / 250, 49 / 250, 49 / 250)"
    using a b by simp
  from t have w: "(17::int) \<le> 5 * 5" by simp
  show ?thesis using h l u v w by simp
qed



section \<open>Properties of the material analysis\<close>

lemma find_None_iff: "find P xs = None \<longleftrightarrow> (\<forall>x\<in>set xs. \<not> P x)"
  by (induction xs) auto

lemma analyze_network_unlinked:
  assumes "sink_unlinked nt"
  shows "analyze_network nt (find_node nt ''ShaderNodeOutputMaterial'') a = Inr a"
  using assms
  by (auto simp: sink_unlinked_def analyze_network_def split: option.splits list.splits)

lemma determine_with_principled: "determine_material_type True a c \<noteq> ''unknown''"
  by (simp add: determine_material_type_def)

text \<open>
  Claim C4, as the code has it. The claim as stated fails: without a sink the analysis
  still classifies the material from the nodes it contains.
\<close>

theorem unclassified_counterexample:
  "sink_unlinked lone_principled_tree
   \<and> find_node lone_principled_tree ''ShaderNodeOutputMaterial'' = None
   \<and> material_type (analyze_material
        (Some \<lparr>use_nodes = True, node_tree = Some lone_principled_tree\<rparr>)) = ''procedural''
   \<and> pure_color_inputs (analyze_material
        (Some \<lparr>use_nodes = True, node_tree = Some lone_principled_tree\<rparr>)) = Some [''Metallic'']"
  by code_simp

text \<open>
  Claim C4, amended. For every tree of host nodes (none has the type name
  \<open>'ShaderNodeNodeGroup'\<close>, which the host does not know) without a sink, or whose sink's
  \<open>Surface\<close> input has no incoming link, the material type is \<open>'unknown'\<close> if and only
  if the tree contains no principled node, no simple shader node and no Mix or Add
  Shader node; group nodes do not count. In that case the analysis has no
  \<open>pure_color_inputs\<close> and no \<open>connected_inputs\<close> entry.
\<close>

theorem unclassified_without_sink_link:
  assumes "sink_unlinked nt"
    and "\<forall>n\<in>set (nodes nt). bl_idname n \<noteq> ''ShaderNodeNodeGroup''"
  shows "((material_type (analyze_material (Some \<lparr>use_nodes = True, node_tree = Some nt\<rparr>))
             = ''unknown'')
          \<longleftrightarrow> (\<forall>n\<in>set (nodes nt). bl_idname n \<noteq> ''ShaderNodeBsdfPrincipled''
                  \<and> bl_idname n \<notin> set simple_shader_types
                  \<and> bl_idname n \<notin> set mix_types))
     \<and> ((\<forall>n\<in>set (nodes nt). bl_idname n \<noteq> ''ShaderNodeBsdfPrincipled''
                  \<and> bl_idname n \<notin> set simple_shader_types
                  \<and> bl_idname n \<notin> set mix_types) \<longrightarrow>
         pure_color_inputs (analyze_material (Some \<lparr>use_nodes = True, node_tree = Some nt\<rparr>))
           = None
         \<and> connected_inputs (analyze_material (Some \<lparr>use_nodes = True, node_tree = Some nt\<rparr>))
           = None)"
proof -
  let ?a = "analyze_material (Some \<lparr>use_nodes = True, node_tree = Some nt\<rparr>)"
  let ?Q = "\<forall>n\<in>set (nodes nt). bl_idname n \<noteq> ''ShaderNodeBsdfPrincipled''
                 \<and> bl_idname n \<notin> set simple_shader_types
                 \<and> bl_idname n \<notin> set mix_types"
  note nw = analyze_network_unlinked [OF assms(1)]
  have listed: "bl_idname n \<in> set shader_types
      \<longleftrightarrow> bl_idname n \<in> set simple_shader_types \<or> bl_idname n \<in> set mix_types"
    if "n \<in> set (nodes nt)" for n
    using assms(2) that by (auto simp: shader_types_def mix_types_def)
  have custom_iff: "filter (\<lambda>n. bl_idname n \<in> set shader_types) (nodes nt) = []
      \<longleftrightarrow> (\<forall>n\<in>set (nodes nt). bl_idname n \<notin> set simple_shader_types
             \<and> bl_idname n \<notin> set mix_types)"
    using listed by (auto simp: filter_empty_conv)
  have one: "(material_type ?a = ''unknown'') \<longleftrightarrow> ?Q"
  proof (cases "find_node nt ''ShaderNodeBsdfPrincipled''")
    case None
    then have np: "\<forall>n\<in>set (nodes nt). bl_idname n \<noteq> ''ShaderNodeBsdfPrincipled''"
      by (simp add: find_node_def find_None_iff)
    show ?thesis
      using None np custom_iff
      by (auto simp: analyze_material_def analyze_tree_def Let_def nw initial_analysis_def)
  next
    case (Some p)
    then have "p \<in> set (nodes nt)" "bl_idname p = ''ShaderNodeBsdfPrincipled''"
      by (auto simp: find_node_def find_Some_iff)
    then have ex: "\<not> ?Q" by blast
    have "material_type ?a \<noteq> ''unknown''"
      using Some determine_with_principled
      by (simp add: analyze_material_def analyze_tree_def Let_def nw)
    then show ?thesis using ex by blast
  qed
  have two: "?Q \<longrightarrow> pure_color_inputs ?a = None \<and> connected_inputs ?a = None"
  proof
    assume ?Q
    then have "find_node nt ''ShaderNodeBsdfPrincipled'' = None"
      by (simp add: find_node_def find_None_iff)
    then show "pure_color_inputs ?a = None \<and> connected_inputs ?a = None"
      by (simp add: analyze_material_def analyze_tree_def Let_def nw initial_analysis_def)
  qed
  show ?thesis using one two by blast
qed

theorem unclassified_without_sink_link_witness:
  "sink_unlinked lone_group_tree
   \<and> map bl_idname (nodes lone_group_tree) = [''ShaderNodeOutputMaterial'', ''ShaderNodeGroup'']
   \<and> material_type (analyze_material (Some \<lparr>use_nodes = True, node_tree = Some lone_group_tree\<rparr>))
       = ''unknown''
   \<and> pure_color_inputs (analyze_material (Some \<lparr>use_nodes = True, node_tree = Some lone_group_tree\<rparr>))
       = None
   \<and> connected_inputs (analyze_material (Some \<lparr>use_nodes = True, node_tree = Some lone_group_tree\<rparr>))
       = None"
proof -
  have h: "sink_unlinked lone_group_tree" by code_simp
  have ns: "map bl_idname (nodes lone_group_tree)
      = [''ShaderNodeOutputMaterial'', ''ShaderNodeGroup'']"
    by (simp add: lone_group_tree_def mk_node_def)
  have g: "\<forall>n\<in>set (nodes lone_group_tree). bl_idname n \<noteq> ''ShaderNodeNodeGroup''"
    by (simp add: lone_group_tree_def mk_node_def)
  have q: "\<forall>n\<in>set (nodes lone_group_tree). bl_idname n \<noteq> ''ShaderNodeBsdfPrincipled''
                  \<and> bl_idname n \<notin> set simple_shader_types
                  \<and> bl_idname n \<notin> set mix_types"
    by (simp add: lone_group_tree_def mk_node_def mix_types_def simple_shader_types_def)
  from unclassified_without_sink_link [OF h g] q h ns show ?thesis by blast
qed

lemma principled_not_custom: "''ShaderNodeBsdfPrincipled'' \<notin> set connected_custom_types"
  by (simp add: connected_custom_types_def simple_shader_types_def)

lemma input_links_subset: "set (input_links nt m i) \<subseteq> set (links nt)"
  by (auto simp: input_links_def)

lemma analyze_mix_inputs_flags:
  assumes "\<forall>l\<in>set (links nt). get_node nt (from_node l) \<noteq> None"
  shows "analyze_mix_inputs nt m is flags =
           Inr (fst flags \<or> (\<exists>i\<in>set is. feeds_principled nt m i),
                snd flags \<or> (\<exists>i\<in>set is. feeds_custom nt m i))"
proof (induction "is" arbitrary: flags)
  case Nil
  then show ?case by simp
next
  case (Cons i "is")
  show ?case
  proof (cases "input_links nt m i")
    case Nil
    then show ?thesis using Cons.IH [of flags]
      by (simp add: feeds_principled_def feeds_custom_def)
  next
    case (Cons l ls)
    then have "l \<in> set (links nt)" using input_links_subset [of nt m i] by auto
    then obtain n where n: "get_node nt (from_node l) = Some n" using assms by auto
    show ?thesis
      using Cons n Cons.IH [of "(True, snd flags)"] Cons.IH [of "(fst flags, True)"]
        Cons.IH [of flags] principled_not_custom
      by (auto simp: feeds_principled_def feeds_custom_def)
  qed
qed

lemma wf_tree_no_dangling:
  assumes "wf_tree nt"
  shows "\<forall>l\<in>set (links nt). get_node nt (from_node l) \<noteq> None"
  using assms
  by (auto simp: wf_tree_def list_all_iff link_ok_def split: option.splits)

text \<open>
  In a well-formed tree whose sink is fed by a Mix or Add Shader that has a principled
  node on one of its inputs and, on another, a node whose type is in the code's list (a
  simple shader), the material type is \<open>'mixed_shader_network'\<close>.
\<close>

lemma mixed_network_of_listed_types:
  assumes wf: "wf_tree nt"
    and out: "find_node nt ''ShaderNodeOutputMaterial'' = Some out"
    and si: "socket_index (inputs out) ''Surface'' = Some si"
    and fed: "input_links nt (node_id out) si = l # ls"
    and mix: "get_node nt (from_node l) = Some mix" "bl_idname mix \<in> set mix_types"
    and pin: "i < length (inputs mix)" "feeds_principled nt (node_id mix) i"
    and cin: "j < length (inputs mix)" "feeds_custom nt (node_id mix) j"
  shows "material_type (analyze_material (Some \<lparr>use_nodes = True, node_tree = Some nt\<rparr>))
           = ''mixed_shader_network''"
proof -
  note nd = wf_tree_no_dangling [OF wf]
  have mixn: "mix \<in> set (nodes nt)"
    using mix(1) by (auto simp: get_node_def find_Some_iff)
  have mt: "bl_idname mix \<noteq> ''ShaderNodeBsdfPrincipled''"
    "bl_idname mix \<notin> set connected_custom_types"
    using mix(2) by (auto simp: mix_types_def connected_custom_types_def simple_shader_types_def)
  have flags: "analyze_mix_inputs nt (node_id mix) [0..<length (inputs mix)] (False, False)
      = Inr (True, True)"
    using pin cin by (auto simp: analyze_mix_inputs_flags [OF nd])
  obtain lp where lp: "input_links nt (node_id mix) i = lp # tl (input_links nt (node_id mix) i)"
    using pin(2) by (cases "input_links nt (node_id mix) i") (auto simp: feeds_principled_def)
  obtain p where p: "get_node nt (from_node lp) = Some p" "bl_idname p = ''ShaderNodeBsdfPrincipled''"
    using pin(2) lp by (auto simp: feeds_principled_def split: list.splits option.splits)
  then have "p \<in> set (nodes nt)" by (auto simp: get_node_def find_Some_iff)
  then have "find_node nt ''ShaderNodeBsdfPrincipled'' \<noteq> None"
    using p(2) by (auto simp: find_node_def find_None_iff)
  then obtain pr where pr: "find_node nt ''ShaderNodeBsdfPrincipled'' = Some pr" by auto
  have custom: "filter (\<lambda>n. bl_idname n \<in> set shader_types) (nodes nt) \<noteq> []"
    using mixn mix(2) by (auto simp: filter_empty_conv shader_types_def mix_types_def)
  have nw: "\<And>a. analyze_network nt (Some out) a =
      Inr (a\<lparr>principled_connected_to_output := True, custom_connected_to_output := True,
             shader_network :=
               Some \<lparr>mix_node = node_id mix, has_principled = True, has_custom = True\<rparr>\<rparr>)"
    using si fed mix mt flags by (simp add: analyze_network_def)
  show ?thesis
    using out pr custom
    by (simp add: analyze_material_def analyze_tree_def Let_def nw determine_material_type_def)
qed

text \<open>
  Claim C5 fails on the code. In \<open>group_network_tree\<close> the sink is fed by a Mix Shader
  that has the principled node on its second input and a group node of the host on its
  third. The analysis finds the principled node on the combiner but not the group node,
  whose type \<open>'ShaderNodeGroup'\<close> is not in the list, and the material type is
  \<open>'principled_with_custom'\<close>, not \<open>'mixed_shader_network'\<close>. The same tree with an
  Emission node in the place of the group node is a \<open>'mixed_shader_network'\<close>.
\<close>

theorem group_on_combiner_not_mixed_network:
  "wf_tree group_network_tree
   \<and> map bl_idname (nodes group_network_tree)
       = [''ShaderNodeOutputMaterial'', ''ShaderNodeMixShader'', ''ShaderNodeBsdfPrincipled'',
          ''ShaderNodeGroup'']
   \<and> map node_id (nodes group_network_tree) = [0, 1, 2, 3]
   \<and> input_links group_network_tree 0 0 = [mk_link 1 0 0 0]
   \<and> input_links group_network_tree 1 1 = [mk_link 2 0 1 1]
   \<and> input_links group_network_tree 1 2 = [mk_link 3 0 1 2]
   \<and> feeds_principled group_network_tree 1 1
   \<and> \<not> feeds_custom group_network_tree 1 2
   \<and> shader_network (analyze_material
        (Some \<lparr>use_nodes = True, node_tree = Some group_network_tree\<rparr>))
       = Some \<lparr>mix_node = 1, has_principled = True, has_custom = False\<rparr>
   \<and> material_type (analyze_material
        (Some \<lparr>use_nodes = True, node_tree = Some group_network_tree\<rparr>))
       = ''principled_with_custom''
   \<and> map bl_idname (nodes mixed_network_tree)
       = [''ShaderNodeOutputMaterial'', ''ShaderNodeMixShader'', ''ShaderNodeBsdfPrincipled'',
          ''ShaderNodeEmission'']
   \<and> links mixed_network_tree = links group_network_tree
   \<and> material_type (analyze_material
        (Some \<lparr>use_nodes = True, node_tree = Some mixed_network_tree\<rparr>))
       = ''mixed_shader_network''"
  by code_simp

text \<open>
  Every step of the program leaves the tree as it is and returns what the function
  \<open>analyze_tree\<close> computes from it.
\<close>

lemma analyze_mix_inputs_run_eq:
  "analyze_mix_inputs_run m is flags nt = (analyze_mix_inputs nt m is flags, nt)"
  by (induction "is" arbitrary: flags)
     (simp_all add: socket_links_def link_from_node_def split: list.splits option.splits)

lemma analyze_network_run_eq:
  "analyze_network_run output a nt = (analyze_network nt output a, nt)"
  by (simp add: analyze_network_run_def analyze_network_def socket_links_def link_from_node_def
      analyze_mix_inputs_run_eq split: option.splits list.splits sum.splits prod.splits)

lemma select_run_eq:
  assumes "\<And>x. test x nt = (P x, nt)"
  shows "select_run test xs nt = (filter P xs, nt)"
  by (induction xs) (simp_all add: assms)

lemma input_is_linked_run_eq:
  "input_is_linked_run p nm nt = (input_is_linked nt p nm, nt)"
  by (simp add: input_is_linked_run_def input_is_linked_def socket_links_def split: option.splits)

lemma is_pure_color_run_eq:
  "is_pure_color_run p nm nt
     = (\<not> input_is_linked nt p nm \<and> is_pure_color nm (input_default p nm), nt)"
  by (simp add: is_pure_color_run_def input_is_linked_run_eq)

lemma analyze_tree_run_eq: "analyze_tree_run nt = (analyze_tree nt, nt)"
proof -
  have c: "select_run (input_is_linked_run p) xs nt = (filter (input_is_linked nt p) xs, nt)"
    for p xs
    by (rule select_run_eq) (rule input_is_linked_run_eq)
  have q: "select_run (is_pure_color_run p) xs nt
      = (filter (\<lambda>nm. \<not> input_is_linked nt p nm \<and> is_pure_color nm (input_default p nm)) xs, nt)"
    for p xs
    by (rule select_run_eq) (rule is_pure_color_run_eq)
  show ?thesis
    unfolding analyze_tree_run_def analyze_tree_def
    by (simp add: nt_nodes_def analyze_network_run_eq c q Let_def find_node_def
        find_connected_inputs_def find_pure_color_inputs_def
        split: sum.splits option.splits)
qed

text \<open>
  Claim C8. A call of \<open>analyze_material\<close>, run statement by statement on the host's
  state, leaves the material and its tree as they are; a second call on what the first
  call leaves returns the same analysis, the same material type and the same
  information on the inputs of the principled node, whatever the material; and the
  analysis is the one that the function \<open>analyze_material\<close> gives.
\<close>

theorem analyze_material_idempotent:
  "snd (analyze_material_run m) = m
   \<and> fst (analyze_material_run (snd (analyze_material_run m))) = fst (analyze_material_run m)
   \<and> fst (analyze_material_run m) = analyze_material m"
proof -
  have "analyze_material_run m = (analyze_material m, m)"
    by (simp add: analyze_material_run_def analyze_material_def analyze_tree_run_eq
        split: option.splits)
  then show ?thesis by simp
qed

section \<open>Properties of the temporary rewiring\<close>

lemma state_tree_same: "st\<lparr>tree := tree st\<rparr> = st"
  by simp

text \<open>
  Claim C1 fails for the single-input probe. In \<open>fanout_tree\<close> the principled node feeds
  two sinks; \<open>temporary_emission_input\<close> removes the first link that leaves the
  principled node's output (the one to the second sink) instead of the link of the
  first sink's \<open>Surface\<close> input, and restores only the latter. After the \<open>with\<close>
  statement, on the normal and on the raising path, one link is left of two.
\<close>

theorem emission_input_loses_link:
  "wf_tree fanout_tree
   \<and> links fanout_tree = [mk_link 1 0 2 0, mk_link 1 0 0 0]
   \<and> links (tree (fst (run_with (temporary_emission_input_enter ''Metallic'' 0)
        temporary_emission_input_exit (\<lambda>y st. (st, None))
        (new_state fanout_tree empty_mesh)))) = [mk_link 1 0 0 0]
   \<and> links (tree (fst (run_with (temporary_emission_input_enter ''Metallic'' 0)
        temporary_emission_input_exit (\<lambda>y st. (st, Some RuntimeError))
        (new_state fanout_tree empty_mesh)))) = [mk_link 1 0 0 0]
   \<and> link_set (tree (fst (run_with (temporary_emission_input_enter ''Metallic'' 0)
        temporary_emission_input_exit (\<lambda>y st. (st, None))
        (new_state fanout_tree empty_mesh)))) \<noteq> link_set fanout_tree"
  by code_simp

text \<open>
  Claim C10. When its target is missing, a probe manager returns the tree it was given,
  yields \<open>None\<close> and has nothing to run on exit, so the \<open>with\<close> statement is its body
  on the unchanged state: for the full-surface probe when there is no sink or the sink's
  \<open>Surface\<close> input is unlinked, for the single-input probe when there is no sink, no
  principled node or no input of the given name, and for the two restricted probes when
  there is no sink or no node is given.
\<close>

theorem probes_noop_on_missing_target:
  "(sink_unlinked (tree st) \<longrightarrow>
      temporary_emission_surface_enter (tree st) = (tree st, Inr (None, None))
      \<and> run_with temporary_emission_surface_enter temporary_emission_surface_exit body1 st
          = body1 None st)
   \<and> (find_node (tree st) ''ShaderNodeOutputMaterial'' = None
        \<or> principled_input_missing (tree st) input_name \<longrightarrow>
      temporary_emission_input_enter input_name dflt (tree st) = (tree st, Inr (None, None))
      \<and> run_with (temporary_emission_input_enter input_name dflt) temporary_emission_input_exit
            body2 st
          = body2 None st)
   \<and> (find_node (tree st) ''ShaderNodeOutputMaterial'' = None \<or> target = None \<longrightarrow>
      temporary_principled_only_surface_enter target (tree st) = (tree st, Inr (None, None))
      \<and> run_with (temporary_principled_only_surface_enter target) restricted_probe_exit body3 st
          = body3 None st
      \<and> temporary_custom_shader_only_surface_enter target (tree st) = (tree st, Inr (None, None))
      \<and> run_with (temporary_custom_shader_only_surface_enter target) restricted_probe_exit body3 st
          = body3 None st)"
proof (intro conjI impI)
  assume "sink_unlinked (tree st)"
  then show a: "temporary_emission_surface_enter (tree st) = (tree st, Inr (None, None))"
    by (auto simp: sink_unlinked_def temporary_emission_surface_enter_def split: option.splits)
  show "run_with temporary_emission_surface_enter temporary_emission_surface_exit body1 st
          = body1 None st"
    by (simp add: run_with_def a split: prod.splits)
next
  assume "find_node (tree st) ''ShaderNodeOutputMaterial'' = None
     \<or> principled_input_missing (tree st) input_name"
  then show a: "temporary_emission_input_enter input_name dflt (tree st)
      = (tree st, Inr (None, None))"
    by (auto simp: principled_input_missing_def temporary_emission_input_enter_def
        split: option.splits)
  show "run_with (temporary_emission_input_enter input_name dflt) temporary_emission_input_exit
            body2 st = body2 None st"
    by (simp add: run_with_def a split: prod.splits)
next
  assume h: "find_node (tree st) ''ShaderNodeOutputMaterial'' = None \<or> target = None"
  then show a: "temporary_principled_only_surface_enter target (tree st)
      = (tree st, Inr (None, None))"
    by (auto simp: temporary_principled_only_surface_enter_def split: option.splits)
  show "run_with (temporary_principled_only_surface_enter target) restricted_probe_exit body3 st
          = body3 None st"
    by (simp add: run_with_def a split: prod.splits)
  from h show b: "temporary_custom_shader_only_surface_enter target (tree st)
      = (tree st, Inr (None, None))"
    by (auto simp: temporary_custom_shader_only_surface_enter_def split: option.splits)
  show "run_with (temporary_custom_shader_only_surface_enter target) restricted_probe_exit body3 st
          = body3 None st"
    by (simp add: run_with_def b split: prod.splits)
qed

theorem probes_noop_on_missing_target_witness:
  "sink_unlinked lone_sink_tree
   \<and> principled_input_missing lone_sink_tree ''Metallic''
   \<and> run_with temporary_emission_surface_enter temporary_emission_surface_exit
        (\<lambda>y s. (s, Some RuntimeError)) (new_state lone_sink_tree empty_mesh)
      = (new_state lone_sink_tree empty_mesh, Some RuntimeError)
   \<and> run_with (temporary_emission_input_enter ''Metallic'' 0) temporary_emission_input_exit
        (\<lambda>y s. (s, None)) (new_state lone_sink_tree empty_mesh)
      = (new_state lone_sink_tree empty_mesh, None)
   \<and> run_with (temporary_principled_only_surface_enter None) restricted_probe_exit
        (\<lambda>y s. (s, None)) (new_state lone_sink_tree empty_mesh)
      = (new_state lone_sink_tree empty_mesh, None)
   \<and> run_with (temporary_custom_shader_only_surface_enter None) restricted_probe_exit
        (\<lambda>y s. (s, None)) (new_state lone_sink_tree empty_mesh)
      = (new_state lone_sink_tree empty_mesh, None)"
proof -
  have t: "tree (new_state lone_sink_tree empty_mesh) = lone_sink_tree"
    by (simp add: new_state_def)
  have h1: "sink_unlinked (tree (new_state lone_sink_tree empty_mesh))"
    unfolding t by code_simp
  have h2: "principled_input_missing (tree (new_state lone_sink_tree empty_mesh)) ''Metallic''"
    unfolding t by code_simp
  note a = probes_noop_on_missing_target
      [of "new_state lone_sink_tree empty_mesh" "\<lambda>y s. (s, Some RuntimeError)" "''Metallic''" 0
          "\<lambda>y s. (s, None)" None "\<lambda>y s. (s, None)"]
  show ?thesis using a h1 h2 by (simp add: t)
qed



text \<open>
  On the same tree the full-surface probe and the two restricted probes put every link
  back.
\<close>

lemma other_probes_restore_fanout_tree:
  "links (tree (fst (run_with temporary_emission_surface_enter temporary_emission_surface_exit
        (\<lambda>y st. (st, None)) (new_state fanout_tree empty_mesh)))) = links fanout_tree
   \<and> links (tree (fst (run_with
        (temporary_principled_only_surface_enter (get_node fanout_tree 1)) restricted_probe_exit
        (\<lambda>y st. (st, Some RuntimeError)) (new_state fanout_tree empty_mesh)))) = links fanout_tree
   \<and> links (tree (fst (run_with
        (temporary_custom_shader_only_surface_enter (get_node fanout_tree 1)) restricted_probe_exit
        (\<lambda>y st. (st, None)) (new_state fanout_tree empty_mesh)))) = links fanout_tree"
  by code_simp

section \<open>Properties of the UDIM tile loop\<close>

lemma run_with_mesh:
  assumes "\<And>y s. obj_mesh (fst (body y s)) = obj_mesh s"
  shows "obj_mesh (fst (run_with enter exit body st)) = obj_mesh st"
proof -
  have "\<And>y s a b. body y s = (a, b) \<Longrightarrow> obj_mesh a = obj_mesh s"
    using assms by (metis fst_conv)
  then show ?thesis
    by (auto simp: run_with_def split: prod.splits sum.splits option.splits)
qed

lemma bake_generic_mesh: "obj_mesh (fst (bake_generic engine bt ul img st)) = obj_mesh st"
  by (simp add: bake_generic_def Let_def)

lemma record_image_mesh: "obj_mesh (record_image r img c st) = obj_mesh st"
  by (simp add: record_image_def Let_def)

lemma fill_constant_mesh: "obj_mesh (fill_constant a r img ps st) = obj_mesh st"
  by (simp add: fill_constant_def record_image_mesh split: option.splits socket_value.splits)

lemma bake_full_surface_mesh:
  assumes "\<And>s. obj_mesh (fst (bake s)) = obj_mesh s"
  shows "obj_mesh (fst (bake_full_surface bake st)) = obj_mesh st"
  unfolding bake_full_surface_def
  by (rule run_with_mesh) (simp add: bake_if_def assms)

lemma bake_restricted_mesh:
  assumes "\<And>s. obj_mesh (fst (bake s)) = obj_mesh s"
  shows "obj_mesh (fst (bake_restricted enter bake st)) = obj_mesh st"
  unfolding bake_restricted_def
  by (rule run_with_mesh) (simp add: assms bake_full_surface_mesh)

lemma bake_custom_shader_mesh:
  assumes "\<And>s. obj_mesh (fst (bake s)) = obj_mesh s"
  shows "obj_mesh (fst (bake_custom_shader s a bake st)) = obj_mesh st"
  unfolding bake_custom_shader_def
  by (simp add: assms bake_full_surface_mesh bake_restricted_mesh
      split: option.splits list.splits)

lemma bake_lighting_basecolor_mesh:
  assumes "\<And>s. obj_mesh (fst (bake s)) = obj_mesh s"
  shows "obj_mesh (fst (bake_lighting_basecolor a bake st)) = obj_mesh st"
proof -
  have "\<And>s x y. bake s = (x, y) \<Longrightarrow> obj_mesh x = obj_mesh s"
    using assms by (metis fst_conv)
  then show ?thesis
    unfolding bake_lighting_basecolor_def
    by (auto simp: assms split: option.splits socket_value.splits prod.splits)
qed

lemma process_passes_mesh:
  assumes "\<And>ps s. obj_mesh (fst (f ps s)) = obj_mesh s"
  shows "obj_mesh (fst (process_passes f pss st)) = obj_mesh st"
proof (induction pss arbitrary: st)
  case Nil
  then show ?case by simp
next
  case (Cons ps pss)
  obtain st1 e where f: "f ps st = (st1, e)" by (cases "f ps st")
  then have "obj_mesh st1 = obj_mesh st" using assms [of ps st] by simp
  then show ?case using f Cons.IH [of st1] by (cases e) simp_all
qed

lemma run_bake_mesh: "obj_mesh (fst (run_bake s a engine img ps st)) = obj_mesh st"
  unfolding run_bake_def Let_def
  by (simp add: bake_custom_shader_mesh bake_lighting_basecolor_mesh run_with_mesh
        bake_generic_mesh split: option.splits)

lemma process_pass_mesh:
  "obj_mesh (fst (process_pass s a engine bake_node r t ps st)) = obj_mesh st"
proof (cases "get_node (tree st) bake_node")
  case None
  then show ?thesis by (simp add: process_pass_def)
next
  case (Some n)
  let ?img = "\<lparr>img_suffix = p_suffix ps, img_width = fst r, img_height = snd r, img_tile = t\<rparr>"
  let ?st0 = "st\<lparr>tree := set_image (tree st) bake_node\<rparr>"
  obtain st1 e where rb: "run_bake s a engine ?img ps ?st0 = (st1, e)"
    by (cases "run_bake s a engine ?img ps ?st0")
  then have m1: "obj_mesh st1 = obj_mesh st"
    using run_bake_mesh [of s a engine ?img ps ?st0] by simp
  show ?thesis
  proof (cases "should_bake a (tree ?st0) ps")
    case (Inl x)
    then show ?thesis using Some by (simp add: process_pass_def)
  next
    case (Inr sb)
    show ?thesis
    proof (cases sb)
      case True
      then show ?thesis using Some Inr rb m1
        by (cases e) (simp_all add: process_pass_def record_image_mesh)
    next
      case False
      then show ?thesis using Some Inr
        by (simp add: process_pass_def fill_constant_mesh)
    qed
  qed
qed

lemma normalize_udim_uvs_for_baking_mesh:
  "fst (normalize_udim_uvs_for_baking m t) = m"
  by (simp add: normalize_udim_uvs_for_baking_def split: prod.splits)

lemma udim_tile_setup_mesh: "fst (udim_tile_setup en tiles t m) = m"
  by (simp add: udim_tile_setup_def normalize_udim_uvs_for_baking_mesh)

lemma restore_udim_uvs_mesh: "restore_udim_uvs m original_uvs = m"
  by (simp add: restore_udim_uvs_def)

text \<open>
  The loop over the passes of a tile runs on the UV coordinates that the object had
  before the tile, and leaves them as they were.
\<close>

lemma process_tile_runs_on_object_mesh:
  "process_tile en tiles t body st = fst (body st)"
proof -
  obtain m1 orig where u: "udim_tile_setup en tiles t (obj_mesh st) = (m1, orig)"
    by (cases "udim_tile_setup en tiles t (obj_mesh st)")
  then have "m1 = obj_mesh st" using udim_tile_setup_mesh [of en tiles t "obj_mesh st"] by simp
  then have "st\<lparr>obj_mesh := m1\<rparr> = st" by simp
  then show ?thesis
    using u by (simp add: process_tile_def restore_udim_uvs_mesh split: prod.splits)
qed

lemma tile_leaves_uvs:
  "obj_mesh (process_tile en tiles t
      (process_passes (process_pass s a engine bake_node r t) pss) st) = obj_mesh st"
  by (simp add: process_tile_runs_on_object_mesh process_passes_mesh process_pass_mesh)

text \<open>
  Claim C9 fails on the code. UDIM mode, the tiles 1001 and 1002 to process, the tile
  1002, a mesh of one triangle whose three loops lie in tile 1002, the textured material
  with its bake node (node 3), the normal pass and a bake operator that always succeeds.
  \<open>normalize_udim_uvs_for_baking\<close> returns the three coordinates it stored, so it ran to
  its end; the copy it edited has the coordinates in the 0-1 window, but the object's
  mesh is unchanged, and the one call of the bake operator sees the loops where they
  were, in tile 1002, outside the 0-1 window.
\<close>

theorem udim_tile_uvs_not_normalized:
  "faces tile_1002_mesh = [[\<lparr>loop_index = 0, loop_uv = (5/4, 1/4)\<rparr>,
                            \<lparr>loop_index = 1, loop_uv = (7/4, 1/4)\<rparr>,
                            \<lparr>loop_index = 2, loop_uv = (3/2, 3/4)\<rparr>]]
   \<and> map (in_tile (get_udim_tile_bounds 1002) \<circ> loop_uv) (concat (faces tile_1002_mesh))
       = [True, True, True]
   \<and> map bl_idname (nodes (tree (with_bake_node (new_state textured_tree tile_1002_mesh))))
       = [''ShaderNodeOutputMaterial'', ''ShaderNodeBsdfPrincipled'', ''ShaderNodeTexImage'',
          ''ShaderNodeTexImage'']
   \<and> map node_id (nodes (tree (with_bake_node (new_state textured_tree tile_1002_mesh))))
       = [0, 1, 2, 3]
   \<and> faces (fst (normalize_bmesh tile_1002_mesh 1002))
       = [[\<lparr>loop_index = 0, loop_uv = (1/4, 1/4)\<rparr>,
           \<lparr>loop_index = 1, loop_uv = (3/4, 1/4)\<rparr>,
           \<lparr>loop_index = 2, loop_uv = (1/2, 3/4)\<rparr>]]
   \<and> udim_tile_setup True [1001, 1002] 1002 tile_1002_mesh
       = (tile_1002_mesh, [(0, (5/4, 1/4)), (1, (7/4, 1/4)), (2, (3/2, 3/4))])
   \<and> map (\<lambda>c. (bc_type c, img_suffix (bc_image c), img_tile (bc_image c), faces (bc_mesh c)))
        (engine_calls (process_tile True [1001, 1002] 1002
           (process_passes
              (process_pass no_channels
                 (analyze_material (Some \<lparr>use_nodes = True, node_tree = Some textured_tree\<rparr>))
                 (\<lambda>c. True) 3 (512, 512) 1002)
              [mk_pass ''Normal'' ''NORMAL'' False None])
           (with_bake_node (new_state textured_tree tile_1002_mesh))))
       = [(''NORMAL'', ''Normal'', 1002,
           [[\<lparr>loop_index = 0, loop_uv = (5/4, 1/4)\<rparr>,
             \<lparr>loop_index = 1, loop_uv = (7/4, 1/4)\<rparr>,
             \<lparr>loop_index = 2, loop_uv = (3/2, 3/4)\<rparr>]])]
   \<and> map snd (saved (process_tile True [1001, 1002] 1002
           (process_passes
              (process_pass no_channels
                 (analyze_material (Some \<lparr>use_nodes = True, node_tree = Some textured_tree\<rparr>))
                 (\<lambda>c. True) 3 (512, 512) 1002)
              [mk_pass ''Normal'' ''NORMAL'' False None])
           (with_bake_node (new_state textured_tree tile_1002_mesh))))
       = [EngineBaked]"
  by code_simp
section \<open>Properties of the pass loop\<close>

lemma find_map_invariant:
  assumes "\<And>x. P (f x) = P x"
  shows "find P (map f xs) = map_option f (find P xs)"
  by (induction xs) (simp_all add: assms)

lemma links_set_image [simp]: "links (set_image nt b) = links nt"
  by (simp add: set_image_def update_node_def)

lemma input_links_set_image [simp]: "input_links (set_image nt b) = input_links nt"
  by (simp add: input_links_def fun_eq_iff)

lemma get_node_set_image:
  "get_node (set_image nt b) i
     = map_option (\<lambda>n. if node_id n = b then n\<lparr>has_image := True\<rparr> else n) (get_node nt i)"
  unfolding get_node_def set_image_def update_node_def
  by (simp add: find_map_invariant)

lemma find_node_set_image:
  "find_node (set_image nt b) idname
     = map_option (\<lambda>n. if node_id n = b then n\<lparr>has_image := True\<rparr> else n) (find_node nt idname)"
  unfolding find_node_def set_image_def update_node_def
  by (simp add: find_map_invariant)

lemma skip_value_cases:
  "skip_value ''Metallic'' (FloatVal v) = (\<bar>v\<bar> < 1/100)"
  "skip_value ''Roughness'' (FloatVal v) = (\<bar>v - 1/2\<bar> < 1/100)"
  "skip_value ''Specular'' (FloatVal v) = (\<bar>v\<bar> < 1/100)"
  by (simp_all add: skip_value_def)

lemma find_append_Some: "find P xs = Some x \<Longrightarrow> find P (xs @ ys) = Some x"
  by (induction xs) (auto split: if_splits)

lemma find_append_None: "find P xs = None \<Longrightarrow> find P (xs @ ys) = find P ys"
  by (induction xs) (auto split: if_splits)

lemma remove_first_links_frame:
  "nodes (remove_first_links nt ps) = nodes nt
   \<and> next_id (remove_first_links nt ps) = next_id nt
   \<and> set (links (remove_first_links nt ps)) \<subseteq> set (links nt)"
proof (induction ps arbitrary: nt)
  case Nil
  then show ?case by (simp add: remove_first_links_def)
next
  case (Cons a ps)
  obtain frm to where a: "a = (frm, to)" by (cases a)
  let ?t = "case output_links nt (fst frm) (snd frm) of [] \<Rightarrow> nt | l # _ \<Rightarrow> links_remove nt l"
  have step: "remove_first_links nt (a # ps) = remove_first_links ?t ps"
    by (simp add: remove_first_links_def a)
  have t: "nodes ?t = nodes nt" "next_id ?t = next_id nt" "set (links ?t) \<subseteq> set (links nt)"
    by (auto simp: links_remove_def split: list.splits dest: set_mp [OF set_remove1_subset])
  show ?case unfolding step using Cons.IH [of ?t] t by auto
qed

lemma input_links_empty_mono:
  assumes "set (links nt') \<subseteq> set (links nt)" "input_links nt n i = []"
  shows "input_links nt' n i = []"
  using assms by (auto simp: input_links_def filter_empty_conv)

lemma get_node_fresh:
  assumes "list_all (\<lambda>n. node_id n < e) ns" "node_id x = e"
  shows "find (\<lambda>n. node_id n = e) (ns @ x # ys) = Some x"
proof -
  have "find (\<lambda>n. node_id n = e) ns = None"
    using assms(1) by (induction ns) auto
  then show ?thesis using assms(2) by (simp add: find_append_None)
qed

lemma update_fresh:
  assumes "list_all (\<lambda>n. node_id n < e) ns" "e \<le> r"
  shows "map (\<lambda>n. if node_id n = r then f n else n) ns = ns"
  using assms by (induction ns) auto

lemma emission_input_enter_constant:
  assumes fresh: "list_all (\<lambda>n. node_id n < next_id nt) (nodes nt)"
    and out: "find_node nt ''ShaderNodeOutputMaterial'' = Some out"
    and si: "socket_index (inputs out) ''Surface'' = Some si"
    and p: "find_node nt ''ShaderNodeBsdfPrincipled'' = Some p"
    and k: "socket_index (inputs p) nm = Some k"
    and unl: "input_links nt (node_id p) k = []"
    and v: "default_value (inputs p ! k) = FloatVal v"
  shows "surface_shows_constant (fst (temporary_emission_input_enter nm d nt)) v"
    and "snd (temporary_emission_input_enter nm d nt)
           = Inr (Some [next_id nt, Suc (next_id nt)],
                  Some \<lparr>ip_tmp_nodes = [next_id nt, Suc (next_id nt)],
                        ip_orig_links = map (\<lambda>l. (from_socket_of l, to_socket_of l))
                                          (input_links nt (node_id out) si)\<rparr>)"
proof -
  define orig where "orig = map (\<lambda>l. (from_socket_of l, to_socket_of l))
                                          (input_links nt (node_id out) si)"
  define nt1 where "nt1 = remove_first_links nt orig"
  define e where "e = next_id nt"
  define emitN where "emitN = \<lparr>node_id = e, bl_idname = ''ShaderNodeEmission'',
      node_name = ''ShaderNodeEmission'', label = [], has_image = False,
      inputs = fst (new_node_sockets ''ShaderNodeEmission''),
      outputs = snd (new_node_sockets ''ShaderNodeEmission'')\<rparr>"
  define rgbN where "rgbN = \<lparr>node_id = Suc e, bl_idname = ''ShaderNodeRGB'',
      node_name = ''ShaderNodeRGB'', label = [], has_image = False,
      inputs = [],
      outputs = [\<lparr>sock_name = ''Color'', default_value = ColorVal v v v 1\<rparr>]\<rparr>"
  define lre where "lre = \<lparr>from_node = Suc e, from_socket = 0, to_node = e, to_socket = 0\<rparr>"
  define leo where "leo = \<lparr>from_node = e, from_socket = 0, to_node = node_id out, to_socket = si\<rparr>"
  define T where "T = \<lparr>nodes = nodes nt @ [emitN, rgbN],
      links = filter (\<lambda>l. \<not> (to_node l = node_id out \<and> to_socket l = si))
                (filter (\<lambda>l. \<not> (to_node l = e \<and> to_socket l = 0)) (links nt1) @ [lre]) @ [leo],
      next_id = Suc (Suc e)\<rparr>"
  note f1 = remove_first_links_frame [of nt orig, folded nt1_def]
  have n1: "nodes nt1 = nodes nt" "next_id nt1 = e" "set (links nt1) \<subseteq> set (links nt)"
    using f1 by (simp_all add: e_def)
  have fr: "list_all (\<lambda>n. node_id n < e) (nodes nt)" using fresh by (simp add: e_def)
  have unl1: "input_links (fst (nodes_new nt1 ''ShaderNodeEmission'')) (node_id p) k = []"
    using input_links_empty_mono [OF n1(3) unl]
    by (simp add: nodes_new_def Let_def input_links_def)
  have upd: "map (\<lambda>n. if node_id n = Suc e then f n else n) (nodes nt) = nodes nt" for f
    by (rule update_fresh [OF fr]) simp
  have res: "temporary_emission_input_enter nm d nt
      = (T, Inr (Some [e, Suc e], Some \<lparr>ip_tmp_nodes = [e, Suc e], ip_orig_links = orig\<rparr>))"
    unfolding temporary_emission_input_enter_def
    using out p k si unl1 v n1(1,2) upd
    by (simp add: Let_def orig_def [symmetric] nt1_def [symmetric] nodes_new_def probe_color_def
        set_output_default_def update_node_def links_new_def T_def emitN_def rgbN_def
        lre_def leo_def new_node_sockets_def split: prod.splits)
  show "snd (temporary_emission_input_enter nm d nt)
           = Inr (Some [next_id nt, Suc (next_id nt)],
                  Some \<lparr>ip_tmp_nodes = [next_id nt, Suc (next_id nt)],
                        ip_orig_links = map (\<lambda>l. (from_socket_of l, to_socket_of l))
                                          (input_links nt (node_id out) si)\<rparr>)"
    unfolding res by (simp add: e_def orig_def)
  have outn: "out \<in> set (nodes nt)"
    using out by (auto simp: find_node_def find_Some_iff)
  then have oe: "node_id out < e" using fr by (auto simp: list_all_iff)
  have fo: "find_node T ''ShaderNodeOutputMaterial'' = Some out"
    using out by (simp add: find_node_def T_def find_append_Some)
  have il: "input_links T (node_id out) si = [leo]"
    using oe by (auto simp: input_links_def T_def leo_def lre_def filter_empty_conv)
  have ge: "get_node T e = Some emitN"
    unfolding get_node_def T_def using get_node_fresh [OF fr, of emitN "[rgbN]"]
    by (simp add: emitN_def)
  have gr: "get_node T (Suc e) = Some rgbN"
  proof -
    have "list_all (\<lambda>n. node_id n < Suc e) (nodes nt @ [emitN])"
      using fr by (auto simp: list_all_iff emitN_def)
    from get_node_fresh [OF this, of rgbN "[]"] show ?thesis
      by (simp add: get_node_def T_def rgbN_def)
  qed
  have ci: "socket_index (inputs emitN) ''Color'' = Some 0"
    by (simp add: emitN_def new_node_sockets_def socket_index_def)
  have il2: "input_links T e 0 = [lre]"
    using oe by (auto simp: input_links_def T_def leo_def lre_def filter_empty_conv)
  show "surface_shows_constant (fst (temporary_emission_input_enter nm d nt)) v"
    unfolding res surface_shows_constant_def
    using fo si il ge ci il2 gr
    by (simp add: leo_def lre_def emitN_def rgbN_def)
qed

lemma set_image_fresh:
  assumes "list_all (\<lambda>n. node_id n < next_id nt) (nodes nt)"
  shows "list_all (\<lambda>n. node_id n < next_id (set_image nt b)) (nodes (set_image nt b))"
  using assms by (auto simp: set_image_def update_node_def list_all_iff)

text \<open>
  Claim C2, amended. For a material of type \<open>'procedural'\<close> or \<open>'default'\<close> without image
  textures, in a tree with a sink, and a pass (other than base colour and custom shader)
  whose emission input is an unlinked float input of the principled node: when the value
  passes the skip test (within 0.01 of 0 for Metallic and Specular, of 0.5 for
  Roughness), the bake operator is not called and an image filled with the value is
  written; otherwise the bake operator is called once, on the tree that the single-input
  probe has set up, in which the sink shows the value through an Emission node, and the
  baked image is written if the call succeeds, and no constant image is written.
\<close>

theorem skip_heuristic:
  assumes mt: "material_type a \<in> set [''procedural'', ''default'']" "\<not> has_image_textures a"
    and wf: "wf_tree (tree st)"
    and out: "find_node (tree st) ''ShaderNodeOutputMaterial'' = Some out"
      "socket_index (inputs out) ''Surface'' = Some si"
    and pr: "find_node (tree st) ''ShaderNodeBsdfPrincipled'' = Some p"
      "principled_node a = Some (node_id p)" "get_node (tree st) (node_id p) = Some p"
    and bn: "get_node (tree st) bake_node = Some bnode"
    and ei: "p_emission_input ps = Some nm" "nm \<noteq> []" "socket_index (inputs p) nm = Some k"
      "input_links (tree st) (node_id p) k = []" "default_value (inputs p ! k) = FloatVal v"
    and sx: "p_suffix ps \<noteq> ''CustomShader''" "p_suffix ps \<noteq> ''BaseColor''"
    and img: "img = \<lparr>img_suffix = p_suffix ps, img_width = fst r, img_height = snd r,
                     img_tile = t\<rparr>"
    and c: "c = \<lparr>bc_type = p_btype ps, bc_use_lighting = False, bc_image = img,
                 bc_tree = fst (temporary_emission_input_enter nm 0
                                  (set_image (tree st) bake_node)),
                 bc_mesh = obj_mesh st\<rparr>"
    and res: "res = fst (process_pass s a engine bake_node r t ps st)"
  shows "(skip_value (p_suffix ps) (FloatVal v) \<longrightarrow>
           engine_calls res = engine_calls st
           \<and> saved res = saved st @ [(img, UniformColor v v v 1)])
       \<and> (\<not> skip_value (p_suffix ps) (FloatVal v) \<longrightarrow>
           engine_calls res = engine_calls st @ [c]
           \<and> surface_shows_constant (bc_tree c) v
           \<and> saved res = saved st @ (if engine c then [(img, EngineBaked)] else []))
       \<and> (p_suffix ps = ''Metallic'' \<longrightarrow> skip_value (p_suffix ps) (FloatVal v) = (\<bar>v\<bar> < 1/100))
       \<and> (p_suffix ps = ''Roughness'' \<longrightarrow>
            skip_value (p_suffix ps) (FloatVal v) = (\<bar>v - 1/2\<bar> < 1/100))
       \<and> (p_suffix ps = ''Specular'' \<longrightarrow> skip_value (p_suffix ps) (FloatVal v) = (\<bar>v\<bar> < 1/100))"
proof -
  let ?st0 = "st\<lparr>tree := set_image (tree st) bake_node\<rparr>"
  define p0 where "p0 = (if node_id p = bake_node then p\<lparr>has_image := True\<rparr> else p)"
  define out0 where "out0 = (if node_id out = bake_node then out\<lparr>has_image := True\<rparr> else out)"
  have p0: "get_node (tree ?st0) (node_id p) = Some p0"
    "find_node (tree ?st0) ''ShaderNodeBsdfPrincipled'' = Some p0"
    using pr by (simp_all add: get_node_set_image find_node_set_image p0_def)
  have p0i: "inputs p0 = inputs p" by (simp add: p0_def)
  have out0: "find_node (tree ?st0) ''ShaderNodeOutputMaterial'' = Some out0"
    using out(1) by (simp add: find_node_set_image out0_def)
  have out0i: "inputs out0 = inputs out" "node_id out0 = node_id out" by (simp_all add: out0_def)
  have il: "input_links (tree ?st0) (node_id p) k = []" using ei(4) by simp
  have sb: "should_bake a (tree ?st0) ps = Inr (\<not> skip_value (p_suffix ps) (FloatVal v))"
    using mt pr(2) ei(1,2,3,5) p0(1) p0i il by (simp add: should_bake_def)
  have pp: "process_pass s a engine bake_node r t ps st =
      (case should_bake a (tree ?st0) ps of
         Inl e \<Rightarrow> (?st0, Some e)
       | Inr True \<Rightarrow>
           (case run_bake s a engine img ps ?st0 of
              (st1, Some e) \<Rightarrow> (st1, None)
            | (st1, None) \<Rightarrow>
                (record_image r img
                   (if length (engine_calls st1) > length (engine_calls ?st0)
                    then EngineBaked else Unwritten) st1, None))
       | Inr False \<Rightarrow> (fill_constant a r img ps ?st0, None))"
    using bn unfolding img by (simp add: process_pass_def Let_def)
  have skip: "skip_value (p_suffix ps) (FloatVal v) \<Longrightarrow>
      engine_calls res = engine_calls st \<and> saved res = saved st @ [(img, UniformColor v v v 1)]"
  proof -
    assume "skip_value (p_suffix ps) (FloatVal v)"
    then have "res = fill_constant a r img ps ?st0" using sb pp res by simp
    also have "\<dots> = record_image r img (UniformColor v v v 1) ?st0"
      using pr(2) ei(1,2,3,5) p0(1) p0i il by (simp add: fill_constant_def)
    finally show ?thesis by (simp add: record_image_def Let_def)
  qed
  have fresh: "list_all (\<lambda>n. node_id n < next_id (tree st)) (nodes (tree st))"
    using wf by (simp add: wf_tree_def)
  have fresh0: "list_all (\<lambda>n. node_id n < next_id (tree ?st0)) (nodes (tree ?st0))"
    using set_image_fresh [OF fresh] by simp
  have si0: "socket_index (inputs out0) ''Surface'' = Some si" using out(2) out0i by simp
  have k0: "socket_index (inputs p0) nm = Some k" using ei(3) p0i by simp
  have v0: "default_value (inputs p0 ! k) = FloatVal v" using ei(5) p0i by simp
  have "node_id p0 = node_id p" by (simp add: p0_def)
  then have il0: "input_links (tree ?st0) (node_id p0) k = []" using il by simp
  note en = emission_input_enter_constant [OF fresh0 out0 si0 p0(2) k0 il0 v0, of 0]
  have shows_v: "surface_shows_constant (bc_tree c) v"
    using en(1) by (simp add: c)
  have bake: "\<not> skip_value (p_suffix ps) (FloatVal v) \<Longrightarrow>
      engine_calls res = engine_calls st @ [c]
      \<and> saved res = saved st @ (if engine c then [(img, EngineBaked)] else [])"
  proof -
    assume ns: "\<not> skip_value (p_suffix ps) (FloatVal v)"
    have rb: "run_bake s a engine img ps ?st0 =
        run_with (temporary_emission_input_enter nm 0) temporary_emission_input_exit
          (\<lambda>_. bake_generic engine (p_btype ps) False img) ?st0"
      using sx ei(1,2) by (simp add: run_bake_def probe_input_def Let_def)
    obtain T y rc where ent: "temporary_emission_input_enter nm 0 (tree ?st0) = (T, Inr (Some y, Some rc))"
      using en(2) by (cases "temporary_emission_input_enter nm 0 (tree ?st0)") simp
    then have T: "T = fst (temporary_emission_input_enter nm 0 (set_image (tree st) bake_node))"
      by simp
    obtain st1 e where r1: "run_bake s a engine img ps ?st0 = (st1, e)"
      by (cases "run_bake s a engine img ps ?st0")
    have r2: "engine_calls st1 = engine_calls st @ [c] \<and> saved st1 = saved st
        \<and> e = (if engine c then None else Some RuntimeError)"
      using r1 ent unfolding rb c T [symmetric]
      by (auto simp: run_with_def bake_generic_def Let_def)
    show ?thesis
    proof (cases "engine c")
      case True
      then have "res = record_image r img EngineBaked st1"
        using sb ns pp res r1 r2 by simp
      then show ?thesis using True r2 by (simp add: record_image_def Let_def)
    next
      case False
      then have "res = st1" using sb ns pp res r1 r2 by simp
      then show ?thesis using False r2 by simp
    qed
  qed
  show ?thesis using skip bake shows_v skip_value_cases by simp
qed

text \<open>
  Claim C2 as stated fails: for \<open>constant_tree\<close> (type \<open>'procedural'\<close>, no image
  textures, metallic 0, roughness 0.5, specular 0.8) the Roughness and Metallic passes
  write uniform images without a call of the bake operator, and the Specular pass, whose
  constant is not a default, is baked by the bake operator, on a tree whose sink shows
  the constant 0.8, and not filled.
\<close>

theorem nondefault_constant_is_baked:
  "material_type (analyze_material (Some \<lparr>use_nodes = True, node_tree = Some constant_tree\<rparr>))
     = ''procedural''
   \<and> has_image_textures (analyze_material
        (Some \<lparr>use_nodes = True, node_tree = Some constant_tree\<rparr>)) = False
   \<and> map_sum id saved
        (bake_material constant_settings (\<lambda>c. True) host_inputs [(512, 512)] [1001]
           (new_state constant_tree empty_mesh))
      = Inr [(mk_image ''Roughness'' 512, UniformColor (1/2) (1/2) (1/2) 1),
             (mk_image ''Metallic'' 512, UniformColor 0 0 0 1),
             (mk_image ''Specular'' 512, EngineBaked)]
   \<and> map_sum id
        (map (\<lambda>c. (bc_type c, bc_use_lighting c, bc_image c,
                    surface_shows_constant (bc_tree c) (8/10))) \<circ> engine_calls)
        (bake_material constant_settings (\<lambda>c. True) host_inputs [(512, 512)] [1001]
           (new_state constant_tree empty_mesh))
      = Inr [(''EMIT'', False, mk_image ''Specular'' 512, True)]"
  by code_simp

theorem skip_heuristic_witness:
  "material_type (analyze_material (Some \<lparr>use_nodes = True, node_tree = Some constant_tree\<rparr>))
     \<in> set [''procedural'', ''default'']
   \<and> wf_tree (tree (with_bake_node (new_state constant_tree empty_mesh)))
   \<and> skip_value ''Metallic'' (FloatVal 0)
   \<and> \<not> skip_value ''Specular'' (FloatVal (8/10))
   \<and> saved (fst (process_pass constant_settings
        (analyze_material (Some \<lparr>use_nodes = True, node_tree = Some constant_tree\<rparr>))
        (\<lambda>c. True) 2 (512, 512) 1001
        (mk_pass ''Metallic'' ''EMIT'' False (Some ''Metallic''))
        (with_bake_node (new_state constant_tree empty_mesh))))
      = [(mk_image ''Metallic'' 512, UniformColor 0 0 0 1)]
   \<and> engine_calls (fst (process_pass constant_settings
        (analyze_material (Some \<lparr>use_nodes = True, node_tree = Some constant_tree\<rparr>))
        (\<lambda>c. True) 2 (512, 512) 1001
        (mk_pass ''Metallic'' ''EMIT'' False (Some ''Metallic''))
        (with_bake_node (new_state constant_tree empty_mesh))))
      = []
   \<and> map (\<lambda>c. (bc_type c, bc_use_lighting c, bc_image c,
                 surface_shows_constant (bc_tree c) (8/10)))
        (engine_calls (fst (process_pass constant_settings
           (analyze_material (Some \<lparr>use_nodes = True, node_tree = Some constant_tree\<rparr>))
           (\<lambda>c. True) 2 (512, 512) 1001
           (mk_pass ''Specular'' ''EMIT'' False (Some ''Specular''))
           (with_bake_node (new_state constant_tree empty_mesh)))))
      = [(''EMIT'', False, mk_image ''Specular'' 512, True)]
   \<and> saved (fst (process_pass constant_settings
        (analyze_material (Some \<lparr>use_nodes = True, node_tree = Some constant_tree\<rparr>))
        (\<lambda>c. True) 2 (512, 512) 1001
        (mk_pass ''Specular'' ''EMIT'' False (Some ''Specular''))
        (with_bake_node (new_state constant_tree empty_mesh))))
      = [(mk_image ''Specular'' 512, EngineBaked)]"
proof -
  define a where
    "a = analyze_material (Some \<lparr>use_nodes = True, node_tree = Some constant_tree\<rparr>)"
  define st where "st = with_bake_node (new_state constant_tree empty_mesh)"
  define p where "p = (mk_node 1 ''ShaderNodeBsdfPrincipled'')
           \<lparr>inputs := [\<lparr>sock_name = ''Base Color'', default_value = ColorVal 1 0 0 1\<rparr>,
                       \<lparr>sock_name = ''Metallic'', default_value = FloatVal 0\<rparr>,
                       \<lparr>sock_name = ''Roughness'', default_value = FloatVal (1/2)\<rparr>,
                       \<lparr>sock_name = ''Specular'', default_value = FloatVal (8/10)\<rparr>]\<rparr>"
  define m where "m = mk_pass ''Metallic'' ''EMIT'' False (Some ''Metallic'')"
  define sp where "sp = mk_pass ''Specular'' ''EMIT'' False (Some ''Specular'')"
  have mt: "material_type a \<in> set [''procedural'', ''default'']" "\<not> has_image_textures a"
    unfolding a_def by code_simp+
  have wf: "wf_tree (tree st)" unfolding st_def by code_simp
  have out: "find_node (tree st) ''ShaderNodeOutputMaterial''
      = Some (mk_node 0 ''ShaderNodeOutputMaterial'')"
    "socket_index (inputs (mk_node 0 ''ShaderNodeOutputMaterial'')) ''Surface'' = Some 0"
    unfolding st_def by code_simp+
  have pr: "find_node (tree st) ''ShaderNodeBsdfPrincipled'' = Some p"
    "principled_node a = Some (node_id p)" "get_node (tree st) (node_id p) = Some p"
    unfolding a_def st_def p_def by code_simp+
  have bn: "get_node (tree st) 2 = Some (mk_node 2 ''ShaderNodeTexImage'')"
    unfolding st_def by code_simp
  have eim: "p_emission_input m = Some ''Metallic''" "''Metallic'' \<noteq> []"
    "socket_index (inputs p) ''Metallic'' = Some 1" "input_links (tree st) (node_id p) 1 = []"
    "default_value (inputs p ! 1) = FloatVal 0"
    unfolding m_def p_def st_def by code_simp+
  have eis: "p_emission_input sp = Some ''Specular''" "''Specular'' \<noteq> []"
    "socket_index (inputs p) ''Specular'' = Some 3" "input_links (tree st) (node_id p) 3 = []"
    "default_value (inputs p ! 3) = FloatVal (8/10)"
    unfolding sp_def p_def st_def by code_simp+
  have sxm: "p_suffix m \<noteq> ''CustomShader''" "p_suffix m \<noteq> ''BaseColor''" "p_suffix m = ''Metallic''"
    "p_btype m = ''EMIT''"
    by (simp_all add: m_def mk_pass_def)
  have sxs: "p_suffix sp \<noteq> ''CustomShader''" "p_suffix sp \<noteq> ''BaseColor''" "p_suffix sp = ''Specular''"
    "p_btype sp = ''EMIT''"
    by (simp_all add: sp_def mk_pass_def)
  have imgm: "mk_image ''Metallic'' 512 = \<lparr>img_suffix = p_suffix m, img_width = fst (512, 512),
      img_height = snd (512, 512), img_tile = 1001\<rparr>"
    by (simp add: mk_image_def sxm)
  have imgs: "mk_image ''Specular'' 512 = \<lparr>img_suffix = p_suffix sp, img_width = fst (512, 512),
      img_height = snd (512, 512), img_tile = 1001\<rparr>"
    by (simp add: mk_image_def sxs)
  have sv: "skip_value ''Metallic'' (FloatVal 0)" "\<not> skip_value ''Specular'' (FloatVal (8/10))"
    by (simp_all add: skip_value_def)
  have s0: "saved st = []" "engine_calls st = []"
    by (simp_all add: st_def with_bake_node_def new_state_def)
  note wm = skip_heuristic [OF mt wf out pr bn eim sxm(1,2) imgm refl refl,
      of constant_settings "\<lambda>c. True"]
  note ws = skip_heuristic [OF mt wf out pr bn eis sxs(1,2) imgs refl refl,
      of constant_settings "\<lambda>c. True"]
  from wm sv(1) have r1: "saved (fst (process_pass constant_settings a (\<lambda>c. True) 2 (512, 512) 1001 m st))
      = [(mk_image ''Metallic'' 512, UniformColor 0 0 0 1)]"
    and r2: "engine_calls (fst (process_pass constant_settings a (\<lambda>c. True) 2 (512, 512) 1001 m st)) = []"
    by (simp_all add: sxm s0)
  from ws sv(2) have r3: "map (\<lambda>c. (bc_type c, bc_use_lighting c, bc_image c,
                 surface_shows_constant (bc_tree c) (8/10)))
        (engine_calls (fst (process_pass constant_settings a (\<lambda>c. True) 2 (512, 512) 1001 sp st)))
      = [(''EMIT'', False, mk_image ''Specular'' 512, True)]"
    and r4: "saved (fst (process_pass constant_settings a (\<lambda>c. True) 2 (512, 512) 1001 sp st))
      = [(mk_image ''Specular'' 512, EngineBaked)]"
    by (simp_all add: sxs s0)
  show ?thesis
    using mt(1) wf sv r1 r2 r3 r4 unfolding a_def st_def m_def sp_def by simp
qed

section \<open>Properties of the resolution loop\<close>

text \<open>Once the bake node is gone, a pass raises at once and a resolution writes nothing.\<close>

lemma process_pass_dead:
  assumes "get_node (tree st) bake_node = None"
  shows "process_pass s a engine bake_node r t ps st = (st, Some ReferenceError)"
  using assms by (simp add: process_pass_def)

lemma process_passes_dead:
  assumes "get_node (tree st) bake_node = None"
  shows "fst (process_passes (process_pass s a engine bake_node r t) pss st) = st"
  using assms by (cases pss) (simp_all add: process_pass_dead)

lemma process_tile_dead:
  assumes "get_node (tree st) bake_node = None"
  shows "same_but_mesh st
     (process_tile en tiles t (process_passes (process_pass s a engine bake_node r t) pss) st)"
proof -
  obtain m1 orig where u: "udim_tile_setup en tiles t (obj_mesh st) = (m1, orig)"
    by (cases "udim_tile_setup en tiles t (obj_mesh st)")
  let ?st1 = "st\<lparr>obj_mesh := m1\<rparr>"
  have "get_node (tree ?st1) bake_node = None" using assms by simp
  then have "fst (process_passes (process_pass s a engine bake_node r t) pss ?st1) = ?st1"
    by (rule process_passes_dead)
  then show ?thesis
    using u by (auto simp: process_tile_def same_but_mesh_def split: prod.splits)
qed

lemma fold_tiles_dead:
  assumes "get_node (tree st) bake_node = None"
  shows "same_but_mesh st
     (fold (\<lambda>t. process_tile en tiles t (process_passes (process_pass s a engine bake_node r t) pss))
        ts st)"
  using assms
proof (induction ts arbitrary: st)
  case Nil
  then show ?case by (simp add: same_but_mesh_def)
next
  case (Cons t ts)
  let ?st1 = "process_tile en tiles t (process_passes (process_pass s a engine bake_node r t) pss) st"
  have one: "same_but_mesh st ?st1" using Cons.prems by (rule process_tile_dead)
  then have "get_node (tree ?st1) bake_node = None"
    using Cons.prems by (simp add: same_but_mesh_def)
  from Cons.IH [OF this] one show ?case by (simp add: same_but_mesh_def)
qed

lemma process_resolution_dead:
  assumes dead: "get_node (tree st) bake_node = None"
    and prim: "map_of (all_baked_images st) primary = None
               \<or> map_of (all_baked_images st) primary = Some []"
  shows "tree (process_resolution s a engine bake_node pss primary tiles im r st) = tree st
     \<and> saved (process_resolution s a engine bake_node pss primary tiles im r st) = saved st
     \<and> engine_calls (process_resolution s a engine bake_node pss primary tiles im r st)
         = engine_calls st
     \<and> rebuilds (process_resolution s a engine bake_node pss primary tiles im r st) = rebuilds st
     \<and> (map_of (all_baked_images (process_resolution s a engine bake_node pss primary tiles im r st))
           primary = None
        \<or> map_of (all_baked_images (process_resolution s a engine bake_node pss primary tiles im r st))
           primary = Some [])"
proof -
  let ?st1 = "if map_of (all_baked_images st) r = None
                 then st\<lparr>all_baked_images := all_baked_images st @ [(r, [])]\<rparr> else st"
  let ?st2 = "fold (\<lambda>t. process_tile (enable_udim s) tiles t
                 (process_passes (process_pass s a engine bake_node r t) pss)) tiles ?st1"
  have d1: "get_node (tree ?st1) bake_node = None" using dead by simp
  have p1: "map_of (all_baked_images ?st1) primary = None
               \<or> map_of (all_baked_images ?st1) primary = Some []"
    using prim by (auto simp: map_add_def split: option.splits)
  have s2: "same_but_mesh ?st1 ?st2" using d1 by (rule fold_tiles_dead)
  then have p2: "map_of (all_baked_images ?st2) primary = None
               \<or> map_of (all_baked_images ?st2) primary = Some []"
    using p1 by (simp add: same_but_mesh_def)
  then have rb: "rebuild_if_requested s im primary ?st2 = ?st2"
    by (auto simp: rebuild_if_requested_def Let_def)
  have d2: "get_node (tree ?st2) bake_node = None"
    using s2 d1 by (simp add: same_but_mesh_def)
  then have rm: "remove_bake_node bake_node ?st2 = ?st2"
    by (simp add: remove_bake_node_def)
  have pr: "process_resolution s a engine bake_node pss primary tiles im r st = ?st2"
    unfolding process_resolution_def Let_def using rb rm by simp
  have "tree ?st2 = tree st" "saved ?st2 = saved st" "engine_calls ?st2 = engine_calls st"
    "rebuilds ?st2 = rebuilds st"
    using s2 by (simp_all add: same_but_mesh_def)
  then show ?thesis using p2 unfolding pr by simp
qed

lemma c3_a: "analyze_material (Some \<lparr>use_nodes = True, node_tree = Some textured_tree\<rparr>) = c3_analysis"
  by code_simp

lemma c3_bp: "build_passes two_channel_settings c3_analysis (create_input_mapping host_inputs) False = c3_passes"
  by code_simp


lemma c3_bake_node: "nodes_new textured_tree ''ShaderNodeTexImage'' = (fst (nodes_new textured_tree ''ShaderNodeTexImage''), 3)"
    by code_simp

lemma c3_primary: "primary_resolution_of [(512, 512), (1024, 1024), (2048, 2048)] = Inr (2048, 2048)"
    by (simp add: primary_resolution_of_def)
lemma c3_order: "order_resolutions [(512, 512), (1024, 1024), (2048, 2048)]
       = [(512, 512), (1024, 1024), (2048, 2048)]" 
  by (simp add: order_resolutions_def)
lemma c3_no_custom: "include_custom_shader two_channel_settings = False" by code_simp
lemma c3_tree: "tree (new_state textured_tree empty_mesh) = textured_tree" by (simp add: new_state_def)

lemma c3_bm: "bake_material two_channel_settings (\<lambda>c. True) host_inputs
           [(512, 512), (1024, 1024), (2048, 2048)] [1001] (new_state textured_tree empty_mesh)
      = Inr (fold (process_resolution two_channel_settings c3_analysis (\<lambda>c. True) 3 c3_passes
      (2048, 2048) [1001] (create_input_mapping host_inputs)) [(512, 512), (1024, 1024), (2048, 2048)] c3_state1)"
  unfolding bake_material_def Let_def c3_a c3_primary c3_tree
  apply (subst c3_bake_node)
  apply (simp only: prod.case sum.case c3_no_custom if_False c3_bp c3_state1_def c3_tree)
  done

text \<open>
  Claim C3 fails on the code. With the resolutions 512, 1024 and 2048, two channels
  (base colour and normal), node replacement requested and a bake operator that always
  succeeds, the run on the textured material writes two images, both at 512, and never
  rebuilds the tree: the bake node is removed at the end of the first iteration of the
  loop over the resolutions, so every later \<open>bake_node.image = img\<close> raises.
\<close>

theorem later_resolutions_not_baked:
  "material_type (analyze_material (Some \<lparr>use_nodes = True, node_tree = Some textured_tree\<rparr>))
     = ''textured''
   \<and> order_resolutions [(512, 512), (1024, 1024), (2048, 2048)]
       = [(512, 512), (1024, 1024), (2048, 2048)]
   \<and> primary_resolution_of [(512, 512), (1024, 1024), (2048, 2048)] = Inr (2048, 2048)
   \<and> length (build_passes two_channel_settings
        (analyze_material (Some \<lparr>use_nodes = True, node_tree = Some textured_tree\<rparr>))
        (create_input_mapping host_inputs) False) = 2
   \<and> map_sum id saved
        (bake_material two_channel_settings (\<lambda>c. True) host_inputs
           [(512, 512), (1024, 1024), (2048, 2048)] [1001]
           (new_state textured_tree empty_mesh))
      = Inr [(mk_image ''BaseColor'' 512, EngineBaked), (mk_image ''Normal'' 512, EngineBaked)]
   \<and> map_sum id rebuilds
        (bake_material two_channel_settings (\<lambda>c. True) host_inputs
           [(512, 512), (1024, 1024), (2048, 2048)] [1001]
           (new_state textured_tree empty_mesh))
      = Inr []"
proof -
  let ?im = "create_input_mapping host_inputs"
  let ?pr = "process_resolution two_channel_settings c3_analysis (\<lambda>c. True) 3 c3_passes
      (2048, 2048) [1001] ?im"
  have mt: "material_type c3_analysis = ''textured''" by (simp add: c3_analysis_def)
  define x1 where "x1 = ?pr (512, 512) c3_state1"
  have x1: "saved x1 = [(mk_image ''BaseColor'' 512, EngineBaked), (mk_image ''Normal'' 512, EngineBaked)]"
    "rebuilds x1 = []" "get_node (tree x1) 3 = None"
    "map_of (all_baked_images x1) (2048, 2048) = None"
    unfolding x1_def by code_simp+
  define x2 where "x2 = ?pr (1024, 1024) x1"
  note s2 = process_resolution_dead [of x1 3 "(2048, 2048)" two_channel_settings c3_analysis
      "\<lambda>c. True" c3_passes "[1001]" ?im "(1024, 1024)", OF x1(3) disjI1 [OF x1(4)]]
  have x2: "saved x2 = saved x1" "rebuilds x2 = rebuilds x1" "get_node (tree x2) 3 = None"
    "map_of (all_baked_images x2) (2048, 2048) = None
               \<or> map_of (all_baked_images x2) (2048, 2048) = Some []"
    using s2 x1(3) unfolding x2_def by simp_all
  define x3 where "x3 = ?pr (2048, 2048) x2"
  note s3 = process_resolution_dead [of x2 3 "(2048, 2048)" two_channel_settings c3_analysis
      "\<lambda>c. True" c3_passes "[1001]" ?im "(2048, 2048)", OF x2(3) x2(4)]
  have x3: "saved x3 = saved x1" "rebuilds x3 = []"
    using s3 x2 x1(2) unfolding x3_def by simp_all
  have bm: "bake_material two_channel_settings (\<lambda>c. True) host_inputs
           [(512, 512), (1024, 1024), (2048, 2048)] [1001] (new_state textured_tree empty_mesh)
      = Inr x3"
    unfolding c3_bm x3_def x2_def x1_def by (simp only: fold.simps o_apply id_apply)
  have len: "length c3_passes = 2" by (simp add: c3_passes_def)
  show ?thesis
    unfolding bm c3_a c3_bp using mt c3_order c3_primary len x3 x1(1) by simp
qed

end
